theory Spec2Isabelle
  imports Main "HOL-Library.Finite_Map" "HOL-Library.Word"
begin

section \<open>The user mark generator of drape\_frontend\<close>

text \<open>
  A shallow embedding of \<^verbatim>\<open>drape_frontend/user_mark_generator.cpp\<close>.

  The header of the class is not among the sources, so the containers are read off their
  use in the \<^verbatim>\<open>.cpp\<close> file: \<^verbatim>\<open>m_marks\<close>, \<^verbatim>\<open>m_lines\<close>, \<^verbatim>\<open>m_marksIndex\<close> and the
  per-tile \<^verbatim>\<open>MarkIndexesGroups\<close> are used through \<^verbatim>\<open>find\<close>, \<^verbatim>\<open>insert(make_pair ...)\<close>,
  \<^verbatim>\<open>erase\<close>, \<^verbatim>\<open>operator[]\<close> and ordered iteration, that is as \<^verbatim>\<open>std::map\<close>; they are
  finite maps here, iterated in ascending key order. \<^verbatim>\<open>m_groupsVisibility\<close> is a
  \<^verbatim>\<open>std::set\<close>, a finite set here.

  What the file takes from elsewhere is a parameter of the model:
  \<^item> \<open>GetTileKeyByPoint\<close> (tile\_utils), from a point and a zoom level to a tile key;
  \<^item> \<open>upperScale\<close>, the value of \<^verbatim>\<open>scales::GetUpperScale()\<close>;
  \<^item> \<open>CacheUserMarks\<close>, which builds the render data of one group in one tile;
  \<^item> the type of points, of tile keys (linearly ordered, as \<^verbatim>\<open>std::set<TileKey>\<close> needs),
    of the texture manager and of the flush function.
\<close>

subsection \<open>Data\<close>

type_synonym GroupID = "32 word"

datatype error = AssertionFailed | NullDereference

record 'pt UserMarkRenderParams =
  m_pivot :: 'pt

record 'pt UserLineRenderParams =
  m_points :: "'pt list"

type_synonym 'pt UserMarksRenderCollection = "'pt UserMarkRenderParams list"
type_synonym 'pt UserLinesRenderCollection = "'pt UserLineRenderParams list"

record IndexesCollection =
  m_markIndexes :: "32 word list"
  m_lineIndexes :: "32 word list"

type_synonym MarkIndexesGroups = "(GroupID, IndexesCollection) fmap"
type_synonym 'tile MarksIndex = "('tile, MarkIndexesGroups) fmap"

record ('tile, 'pt, 'sink) UserMarkGenerator =
  m_marks :: "(GroupID, 'pt UserMarksRenderCollection) fmap"
  m_lines :: "(GroupID, 'pt UserLinesRenderCollection) fmap"
  m_groupsVisibility :: "GroupID fset"
  m_marksIndex :: "'tile MarksIndex"
  m_flushFn :: 'sink

text \<open>One call of the flush function: which function, and its two arguments.\<close>

datatype ('sink, 'rd) FlushCall =
  FlushCall (call_sink: 'sink) (call_group: GroupID) (call_data: 'rd)

subsection \<open>Construction\<close>

text \<open>
  Modelled from the spec: the \<^verbatim>\<open>ASSERT\<close> macro (base/assert.hpp) is not among the sources.
  The spec calls a violated construction precondition a fatal failure after which
  construction does not proceed, so a failed assertion is the error \<open>AssertionFailed\<close>.
\<close>

definition ASSERT :: "bool \<Rightarrow> error + unit" where
  "ASSERT c = (if c then Inr () else Inl AssertionFailed)"

text \<open>
  \<^verbatim>\<open>TFlushFn\<close> is a \<^verbatim>\<open>std::function\<close>, which may be null: the argument is an option. The
  field of a constructed generator is never assigned again, so it holds the function itself.
\<close>

definition UserMarkGenerator_ctor ::
  "'sink option \<Rightarrow> error + ('tile, 'pt, 'sink) UserMarkGenerator" where
  "UserMarkGenerator_ctor flushFn =
     (case ASSERT (flushFn \<noteq> None) of
        Inl e \<Rightarrow> Inl e
      | Inr _ \<Rightarrow>
          (case flushFn of
             None \<Rightarrow> Inl AssertionFailed
           | Some f \<Rightarrow>
               Inr \<lparr>m_marks = fmempty, m_lines = fmempty, m_groupsVisibility = {||},
                    m_marksIndex = fmempty, m_flushFn = f\<rparr>))"

subsection \<open>The index\<close>

text \<open>
  \<^verbatim>\<open>GetIndexesCollection\<close> creates the entry of the tile and, in it, the entry of the group
  when they are missing (\<^verbatim>\<open>insert\<close> after a failed \<^verbatim>\<open>find\<close>), and returns a reference to
  the group's \<^verbatim>\<open>IndexesCollection\<close>. The reference is the path \<open>(tileKey, groupId)\<close> into
  the index it returns; \<open>at_indexes\<close> is a write through that reference.
\<close>

definition GetIndexesCollection ::
  "'tile \<Rightarrow> GroupID \<Rightarrow> 'tile MarksIndex \<Rightarrow> 'tile MarksIndex" where
  "GetIndexesCollection tileKey groupId idx =
     (let tileGroups = (case fmlookup idx tileKey of None \<Rightarrow> fmempty | Some tg \<Rightarrow> tg);
          tileGroups' = (case fmlookup tileGroups groupId of
                           None \<Rightarrow> fmupd groupId \<lparr>m_markIndexes = [], m_lineIndexes = []\<rparr> tileGroups
                         | Some _ \<Rightarrow> tileGroups)
      in fmupd tileKey tileGroups' idx)"

definition at_indexes ::
  "'tile \<Rightarrow> GroupID \<Rightarrow> (IndexesCollection \<Rightarrow> IndexesCollection) \<Rightarrow> 'tile MarksIndex
     \<Rightarrow> 'tile MarksIndex" where
  "at_indexes tileKey groupId f idx =
     (case fmlookup idx tileKey of
        None \<Rightarrow> idx
      | Some tileGroups \<Rightarrow>
          (case fmlookup tileGroups groupId of
             None \<Rightarrow> idx
           | Some groupIndexes \<Rightarrow> fmupd tileKey (fmupd groupId (f groupIndexes) tileGroups) idx))"

text \<open>
  \<^verbatim>\<open>CleanIndex\<close>: the first loop erases the tiles whose group map is empty, the second
  loop then erases, in every tile left, the groups whose two lists are both empty.
\<close>

definition CleanIndex ::
  "('tile, 'pt, 'sink) UserMarkGenerator \<Rightarrow> ('tile, 'pt, 'sink) UserMarkGenerator" where
  "CleanIndex s =
     (let idx1 = fmfilter (\<lambda>tileKey. case fmlookup (m_marksIndex s) tileKey of
                                        None \<Rightarrow> False
                                      | Some tileGroups \<Rightarrow> fmdom tileGroups \<noteq> {||})
                   (m_marksIndex s);
          idx2 = fmmap (\<lambda>tileGroups.
                     fmfilter (\<lambda>groupId. case fmlookup tileGroups groupId of
                                  None \<Rightarrow> False
                                | Some ic \<Rightarrow> \<not> (m_markIndexes ic = [] \<and> m_lineIndexes ic = []))
                       tileGroups) idx1
      in s\<lparr>m_marksIndex := idx2\<rparr>)"

text \<open>The first loop of \<^verbatim>\<open>UpdateMarksIndex\<close> and of \<^verbatim>\<open>UpdateLinesIndex\<close>, for one tile.\<close>

definition clear_markIndexes :: "GroupID \<Rightarrow> MarkIndexesGroups \<Rightarrow> MarkIndexesGroups" where
  "clear_markIndexes groupId tileGroups =
     (case fmlookup tileGroups groupId of
        None \<Rightarrow> tileGroups
      | Some ic \<Rightarrow> fmupd groupId (ic\<lparr>m_markIndexes := []\<rparr>) tileGroups)"

definition clear_lineIndexes :: "GroupID \<Rightarrow> MarkIndexesGroups \<Rightarrow> MarkIndexesGroups" where
  "clear_lineIndexes groupId tileGroups =
     (case fmlookup tileGroups groupId of
        None \<Rightarrow> tileGroups
      | Some ic \<Rightarrow> fmupd groupId (ic\<lparr>m_lineIndexes := []\<rparr>) tileGroups)"

text \<open>
  The body of the two nested loops of \<^verbatim>\<open>UpdateMarksIndex\<close>. The position is stored after
  \<^verbatim>\<open>static_cast<uint32_t>\<close>, which is \<open>of_nat\<close> into the 32-bit words.
\<close>

definition push_mark :: "'tile \<Rightarrow> GroupID \<Rightarrow> nat \<Rightarrow> 'tile MarksIndex \<Rightarrow> 'tile MarksIndex" where
  "push_mark tileKey groupId markIndex idx =
     at_indexes tileKey groupId
       (\<lambda>groupIndexes. groupIndexes\<lparr>m_markIndexes := m_markIndexes groupIndexes @ [of_nat markIndex]\<rparr>)
       (GetIndexesCollection tileKey groupId idx)"

definition push_line :: "'tile \<Rightarrow> GroupID \<Rightarrow> nat \<Rightarrow> 'tile MarksIndex \<Rightarrow> 'tile MarksIndex" where
  "push_line tileKey groupId lineIndex idx =
     at_indexes tileKey groupId
       (\<lambda>groupIndexes. groupIndexes\<lparr>m_lineIndexes := m_lineIndexes groupIndexes @ [of_nat lineIndex]\<rparr>)
       (GetIndexesCollection tileKey groupId idx)"

definition UpdateMarksIndex ::
  "('pt \<Rightarrow> int \<Rightarrow> 'tile) \<Rightarrow> int \<Rightarrow> GroupID \<Rightarrow> ('tile, 'pt, 'sink) UserMarkGenerator
     \<Rightarrow> ('tile, 'pt, 'sink) UserMarkGenerator" where
  "UpdateMarksIndex GetTileKeyByPoint upperScale groupId s =
     (let s1 = s\<lparr>m_marksIndex := fmmap (clear_markIndexes groupId) (m_marksIndex s)\<rparr> in
      case fmlookup (m_marks s1) groupId of
        None \<Rightarrow> s1
      | Some marks \<Rightarrow>
          CleanIndex (s1\<lparr>m_marksIndex :=
            foldl (\<lambda>idx markIndex.
                foldl (\<lambda>idx zoomLevel.
                    push_mark (GetTileKeyByPoint (m_pivot (marks ! markIndex)) zoomLevel)
                      groupId markIndex idx)
                  idx [1..upperScale])
              (m_marksIndex s1) [0..<length marks]\<rparr>))"

text \<open>
  The \<^verbatim>\<open>std::set<TileKey>\<close> of one line at one zoom level: the tiles of its points, inserted
  one by one, kept sorted and without duplicates.
\<close>

definition line_tiles :: "('pt \<Rightarrow> int \<Rightarrow> 'tile::linorder) \<Rightarrow> 'pt list \<Rightarrow> int \<Rightarrow> 'tile list" where
  "line_tiles GetTileKeyByPoint points zoomLevel =
     foldl (\<lambda>tiles pt. insort_insert (GetTileKeyByPoint pt zoomLevel) tiles) [] points"

definition UpdateLinesIndex ::
  "('pt \<Rightarrow> int \<Rightarrow> 'tile::linorder) \<Rightarrow> int \<Rightarrow> GroupID \<Rightarrow> ('tile, 'pt, 'sink) UserMarkGenerator
     \<Rightarrow> ('tile, 'pt, 'sink) UserMarkGenerator" where
  "UpdateLinesIndex GetTileKeyByPoint upperScale groupId s =
     (let s1 = s\<lparr>m_marksIndex := fmmap (clear_lineIndexes groupId) (m_marksIndex s)\<rparr> in
      case fmlookup (m_lines s1) groupId of
        None \<Rightarrow> s1
      | Some lines \<Rightarrow>
          CleanIndex (s1\<lparr>m_marksIndex :=
            foldl (\<lambda>idx lineIndex.
                foldl (\<lambda>idx zoomLevel.
                    foldl (\<lambda>idx tileKey. push_line tileKey groupId lineIndex idx) idx
                      (line_tiles GetTileKeyByPoint (m_points (lines ! lineIndex)) zoomLevel))
                  idx [1..upperScale])
              (m_marksIndex s1) [0..<length lines]\<rparr>))"

subsection \<open>The public operations\<close>

text \<open>\<^verbatim>\<open>std::map::insert\<close> leaves the map as it is when the key is already there.\<close>

definition map_insert :: "'k \<Rightarrow> 'v \<Rightarrow> ('k, 'v) fmap \<Rightarrow> ('k, 'v) fmap" where
  "map_insert k v m = (case fmlookup m k of None \<Rightarrow> fmupd k v m | Some _ \<Rightarrow> m)"

definition ClearUserMarks ::
  "('pt \<Rightarrow> int \<Rightarrow> 'tile::linorder) \<Rightarrow> int \<Rightarrow> GroupID \<Rightarrow> ('tile, 'pt, 'sink) UserMarkGenerator
     \<Rightarrow> ('tile, 'pt, 'sink) UserMarkGenerator" where
  "ClearUserMarks GetTileKeyByPoint upperScale groupId s =
     UpdateLinesIndex GetTileKeyByPoint upperScale groupId
       (UpdateMarksIndex GetTileKeyByPoint upperScale groupId
          (s\<lparr>m_groupsVisibility := m_groupsVisibility s |-| {|groupId|},
             m_marks := fmdrop groupId (m_marks s),
             m_lines := fmdrop groupId (m_lines s)\<rparr>))"

definition SetUserMarks ::
  "('pt \<Rightarrow> int \<Rightarrow> 'tile) \<Rightarrow> int \<Rightarrow> GroupID \<Rightarrow> 'pt UserMarksRenderCollection
     \<Rightarrow> ('tile, 'pt, 'sink) UserMarkGenerator \<Rightarrow> ('tile, 'pt, 'sink) UserMarkGenerator" where
  "SetUserMarks GetTileKeyByPoint upperScale groupId marks s =
     UpdateMarksIndex GetTileKeyByPoint upperScale groupId
       (s\<lparr>m_marks := map_insert groupId marks (m_marks s)\<rparr>)"

definition SetUserLines ::
  "('pt \<Rightarrow> int \<Rightarrow> 'tile::linorder) \<Rightarrow> int \<Rightarrow> GroupID \<Rightarrow> 'pt UserLinesRenderCollection
     \<Rightarrow> ('tile, 'pt, 'sink) UserMarkGenerator \<Rightarrow> ('tile, 'pt, 'sink) UserMarkGenerator" where
  "SetUserLines GetTileKeyByPoint upperScale groupId lines s =
     UpdateLinesIndex GetTileKeyByPoint upperScale groupId
       (s\<lparr>m_lines := map_insert groupId lines (m_lines s)\<rparr>)"

definition SetGroupVisibility ::
  "GroupID \<Rightarrow> bool \<Rightarrow> ('tile, 'pt, 'sink) UserMarkGenerator
     \<Rightarrow> ('tile, 'pt, 'sink) UserMarkGenerator" where
  "SetGroupVisibility groupId isVisible s =
     (if isVisible then s\<lparr>m_groupsVisibility := finsert groupId (m_groupsVisibility s)\<rparr>
      else s\<lparr>m_groupsVisibility := m_groupsVisibility s |-| {|groupId|}\<rparr>)"

text \<open>
  The loop of \<^verbatim>\<open>GenerateUserMarksGeometry\<close> over the groups of the tile, in ascending order
  of the group ids. \<^verbatim>\<open>*m_marks[groupId]\<close> comes first: for a group without a mark collection
  \<^verbatim>\<open>operator[]\<close> makes a null pointer and the dereference is undefined behaviour, the
  error \<open>NullDereference\<close> here. Only then is the visibility looked up. The result is the
  list of the calls of \<^verbatim>\<open>m_flushFn\<close>, in order.
\<close>

fun GenerateGroups ::
  "('tile \<Rightarrow> 'tex \<Rightarrow> 'pt UserMarksRenderCollection \<Rightarrow> 32 word list \<Rightarrow> 'rd)
     \<Rightarrow> ('tile, 'pt, 'sink) UserMarkGenerator \<Rightarrow> 'tile \<Rightarrow> 'tex
     \<Rightarrow> (GroupID \<times> IndexesCollection) list \<Rightarrow> error + ('sink, 'rd) FlushCall list" where
  "GenerateGroups CacheUserMarks s tileKey textures [] = Inr []"
| "GenerateGroups CacheUserMarks s tileKey textures ((groupId, groupIndexes) # rest) =
     (case fmlookup (m_marks s) groupId of
        None \<Rightarrow> Inl NullDereference
      | Some renderParams \<Rightarrow>
          (let indexes = m_markIndexes groupIndexes in
           if groupId |\<notin>| m_groupsVisibility s
           then GenerateGroups CacheUserMarks s tileKey textures rest
           else (let renderData = CacheUserMarks tileKey textures renderParams indexes in
                 case GenerateGroups CacheUserMarks s tileKey textures rest of
                   Inl e \<Rightarrow> Inl e
                 | Inr calls \<Rightarrow> Inr (FlushCall (m_flushFn s) groupId renderData # calls))))"

definition GenerateUserMarksGeometry ::
  "('tile \<Rightarrow> 'tex \<Rightarrow> 'pt UserMarksRenderCollection \<Rightarrow> 32 word list \<Rightarrow> 'rd)
     \<Rightarrow> 'tile \<Rightarrow> 'tex \<Rightarrow> ('tile, 'pt, 'sink) UserMarkGenerator
     \<Rightarrow> error + (('sink, 'rd) FlushCall list \<times> ('tile, 'pt, 'sink) UserMarkGenerator)" where
  "GenerateUserMarksGeometry CacheUserMarks tileKey textures s =
     (case fmlookup (m_marksIndex s) tileKey of
        None \<Rightarrow> Inr ([], s)
      | Some indexesGroups \<Rightarrow>
          (case GenerateGroups CacheUserMarks s tileKey textures
                  (sorted_list_of_fmap indexesGroups) of
             Inl e \<Rightarrow> Inl e
           | Inr calls \<Rightarrow> Inr (calls, s)))"

subsection \<open>The null pointer that operator[] leaves\<close>

text \<open>
  The values of \<^verbatim>\<open>m_marks\<close> are pointers (\<^verbatim>\<open>drape_ptr\<close>). For a group that is no key of
  \<^verbatim>\<open>m_marks\<close>, \<^verbatim>\<open>m_marks[groupId]\<close> in line 166 first puts a null pointer under that key.
  \<open>GenerateUserMarksGeometry\<close> above ends at the dereference of that pointer. A build
  without checks goes on instead: the null reference is bound, it is read only by who uses
  it (\<^verbatim>\<open>CacheUserMarks\<close>, for a visible group), and the null pointer stays in \<^verbatim>\<open>m_marks\<close>.

  \<open>UncheckedGenerator\<close> is the generator with the pointers told apart: \<open>null_marks\<close> are
  the keys of \<^verbatim>\<open>m_marks\<close> that hold a null pointer, \<open>m_marks\<close> of the generator holds the
  other keys with their collections.
\<close>

record ('tile, 'pt, 'sink) UncheckedGenerator =
  generator :: "('tile, 'pt, 'sink) UserMarkGenerator"
  null_marks :: "GroupID fset"

text \<open>
  \<^verbatim>\<open>*m_marks[groupId]\<close>: the collection of the group, or no collection (a null reference),
  the key then being in \<^verbatim>\<open>m_marks\<close> with a null pointer.
\<close>

definition marks_at ::
  "GroupID \<Rightarrow> ('tile, 'pt, 'sink) UncheckedGenerator
     \<Rightarrow> 'pt UserMarksRenderCollection option \<times> ('tile, 'pt, 'sink) UncheckedGenerator" where
  "marks_at groupId u =
     (case fmlookup (m_marks (generator u)) groupId of
        Some marks \<Rightarrow> (Some marks, u)
      | None \<Rightarrow> (None, u\<lparr>null_marks := finsert groupId (null_marks u)\<rparr>))"

text \<open>
  \<^verbatim>\<open>GenerateUserMarksGeometry\<close> with the reference bound whatever the pointer is. An
  invisible group is passed over; for a visible group \<^verbatim>\<open>CacheUserMarks\<close> gets the reference,
  null or not.
\<close>

fun GenerateGroups_unchecked ::
  "('tile \<Rightarrow> 'tex \<Rightarrow> 'pt UserMarksRenderCollection option \<Rightarrow> 32 word list \<Rightarrow> 'rd)
     \<Rightarrow> ('tile, 'pt, 'sink) UncheckedGenerator \<Rightarrow> 'tile \<Rightarrow> 'tex
     \<Rightarrow> (GroupID \<times> IndexesCollection) list
     \<Rightarrow> ('sink, 'rd) FlushCall list \<times> ('tile, 'pt, 'sink) UncheckedGenerator" where
  "GenerateGroups_unchecked CacheUserMarks u tileKey textures [] = ([], u)"
| "GenerateGroups_unchecked CacheUserMarks u tileKey textures ((groupId, groupIndexes) # rest) =
     (case marks_at groupId u of
        (renderParams, u1) \<Rightarrow>
          (let indexes = m_markIndexes groupIndexes in
           if groupId |\<notin>| m_groupsVisibility (generator u1)
           then GenerateGroups_unchecked CacheUserMarks u1 tileKey textures rest
           else (let renderData = CacheUserMarks tileKey textures renderParams indexes in
                 case GenerateGroups_unchecked CacheUserMarks u1 tileKey textures rest of
                   (calls, u2) \<Rightarrow>
                     (FlushCall (m_flushFn (generator u1)) groupId renderData # calls, u2))))"

definition GenerateUserMarksGeometry_unchecked ::
  "('tile \<Rightarrow> 'tex \<Rightarrow> 'pt UserMarksRenderCollection option \<Rightarrow> 32 word list \<Rightarrow> 'rd)
     \<Rightarrow> 'tile \<Rightarrow> 'tex \<Rightarrow> ('tile, 'pt, 'sink) UncheckedGenerator
     \<Rightarrow> ('sink, 'rd) FlushCall list \<times> ('tile, 'pt, 'sink) UncheckedGenerator" where
  "GenerateUserMarksGeometry_unchecked CacheUserMarks tileKey textures u =
     (case fmlookup (m_marksIndex (generator u)) tileKey of
        None \<Rightarrow> ([], u)
      | Some indexesGroups \<Rightarrow>
          GenerateGroups_unchecked CacheUserMarks u tileKey textures
            (sorted_list_of_fmap indexesGroups))"

text \<open>
  \<^verbatim>\<open>UpdateMarksIndex\<close> for a group whose key holds a null pointer: \<^verbatim>\<open>find\<close> (line 44) finds
  the key, and \<^verbatim>\<open>marks.size()\<close> (line 48) reads through the null pointer, the error. For
  every other group it is \<open>UpdateMarksIndex\<close>. In \<^verbatim>\<open>SetUserMarks\<close> the \<^verbatim>\<open>insert\<close> does nothing
  for a key that is there, whatever its pointer; \<^verbatim>\<open>erase\<close> in \<^verbatim>\<open>ClearUserMarks\<close> takes the
  key out, whatever its pointer.
\<close>

definition UpdateMarksIndex_unchecked ::
  "('pt \<Rightarrow> int \<Rightarrow> 'tile) \<Rightarrow> int \<Rightarrow> GroupID \<Rightarrow> ('tile, 'pt, 'sink) UncheckedGenerator
     \<Rightarrow> error + ('tile, 'pt, 'sink) UncheckedGenerator" where
  "UpdateMarksIndex_unchecked GetTileKeyByPoint upperScale groupId u =
     (if groupId |\<in>| null_marks u then Inl NullDereference
      else Inr (u\<lparr>generator := UpdateMarksIndex GetTileKeyByPoint upperScale groupId (generator u)\<rparr>))"

definition SetUserMarks_unchecked ::
  "('pt \<Rightarrow> int \<Rightarrow> 'tile) \<Rightarrow> int \<Rightarrow> GroupID \<Rightarrow> 'pt UserMarksRenderCollection
     \<Rightarrow> ('tile, 'pt, 'sink) UncheckedGenerator \<Rightarrow> error + ('tile, 'pt, 'sink) UncheckedGenerator" where
  "SetUserMarks_unchecked GetTileKeyByPoint upperScale groupId marks u =
     UpdateMarksIndex_unchecked GetTileKeyByPoint upperScale groupId
       (if groupId |\<in>| null_marks u then u
        else u\<lparr>generator := (generator u)\<lparr>m_marks := map_insert groupId marks (m_marks (generator u))\<rparr>\<rparr>)"

definition ClearUserMarks_unchecked ::
  "('pt \<Rightarrow> int \<Rightarrow> 'tile::linorder) \<Rightarrow> int \<Rightarrow> GroupID \<Rightarrow> ('tile, 'pt, 'sink) UncheckedGenerator
     \<Rightarrow> ('tile, 'pt, 'sink) UncheckedGenerator" where
  "ClearUserMarks_unchecked GetTileKeyByPoint upperScale groupId u =
     u\<lparr>generator := ClearUserMarks GetTileKeyByPoint upperScale groupId (generator u),
       null_marks := null_marks u |-| {|groupId|}\<rparr>"

subsection \<open>Reading the index\<close>

text \<open>
  The position lists the index holds for a group in a tile; the empty list when the tile
  or the group has no entry.
\<close>

definition mark_positions :: "'tile MarksIndex \<Rightarrow> 'tile \<Rightarrow> GroupID \<Rightarrow> 32 word list" where
  "mark_positions idx tileKey groupId =
     (case fmlookup idx tileKey of
        None \<Rightarrow> []
      | Some tileGroups \<Rightarrow>
          (case fmlookup tileGroups groupId of None \<Rightarrow> [] | Some ic \<Rightarrow> m_markIndexes ic))"

definition line_positions :: "'tile MarksIndex \<Rightarrow> 'tile \<Rightarrow> GroupID \<Rightarrow> 32 word list" where
  "line_positions idx tileKey groupId =
     (case fmlookup idx tileKey of
        None \<Rightarrow> []
      | Some tileGroups \<Rightarrow>
          (case fmlookup tileGroups groupId of None \<Rightarrow> [] | Some ic \<Rightarrow> m_lineIndexes ic))"

text \<open>
  What the loops of \<^verbatim>\<open>UpdateMarksIndex\<close> and \<^verbatim>\<open>UpdateLinesIndex\<close> append for one
  tile, in the order of the loops: collection position outermost, zoom level inside.
\<close>

definition marks_of_tile :: "('pt \<Rightarrow> int \<Rightarrow> 'tile) \<Rightarrow> int \<Rightarrow> 'pt UserMarksRenderCollection \<Rightarrow> 'tile \<Rightarrow> 32 word list" where
  "marks_of_tile tk U marks t =
     concat (map (\<lambda>i. map (\<lambda>z. of_nat i) (filter (\<lambda>z. tk (m_pivot (marks ! i)) z = t) [1..U]))
       [0..<length marks])"

definition lines_of_tile ::
  "('pt \<Rightarrow> int \<Rightarrow> 'tile) \<Rightarrow> int \<Rightarrow> 'pt UserLinesRenderCollection \<Rightarrow> 'tile \<Rightarrow> 32 word list" where
  "lines_of_tile tk U lines t =
     concat (map (\<lambda>j. map (\<lambda>z. of_nat j)
                 (filter (\<lambda>z. t \<in> (\<lambda>pt. tk pt z) ` set (m_points (lines ! j))) [1..U]))
       [0..<length lines])"

subsection \<open>Sequences of calls\<close>

text \<open>
  The four mutating calls the owner of the generator makes, under the names the
  specification gives them, and what each does to the generator.
\<close>

datatype 'pt Command =
    Clear GroupID
  | ReplaceMarks GroupID "'pt UserMarksRenderCollection"
  | ReplaceLines GroupID "'pt UserLinesRenderCollection"
  | SetVisibility GroupID bool

fun run_command ::
  "('pt \<Rightarrow> int \<Rightarrow> 'tile::linorder) \<Rightarrow> int \<Rightarrow> ('tile, 'pt, 'sink) UserMarkGenerator
     \<Rightarrow> 'pt Command \<Rightarrow> ('tile, 'pt, 'sink) UserMarkGenerator" where
  "run_command GetTileKeyByPoint upperScale s (Clear groupId) =
     ClearUserMarks GetTileKeyByPoint upperScale groupId s"
| "run_command GetTileKeyByPoint upperScale s (ReplaceMarks groupId marks) =
     SetUserMarks GetTileKeyByPoint upperScale groupId marks s"
| "run_command GetTileKeyByPoint upperScale s (ReplaceLines groupId lines) =
     SetUserLines GetTileKeyByPoint upperScale groupId lines s"
| "run_command GetTileKeyByPoint upperScale s (SetVisibility groupId isVisible) =
     SetGroupVisibility groupId isVisible s"

subsection \<open>A small instance\<close>

text \<open>
  Points and tiles are integers, the tile of point \<open>p\<close> at zoom \<open>z\<close> is \<open>100 * p + z\<close>,
  there are two zoom levels, the render data is the pair of the arguments given to
  \<^verbatim>\<open>CacheUserMarks\<close>, and the flush function is known by its name.
\<close>

definition example_tile :: "int \<Rightarrow> int \<Rightarrow> int" where
  "example_tile p z = 100 * p + z"

definition example_cache ::
  "int \<Rightarrow> unit \<Rightarrow> int UserMarksRenderCollection \<Rightarrow> 32 word list
     \<Rightarrow> int UserMarksRenderCollection \<times> 32 word list" where
  "example_cache tileKey textures renderParams indexes = (renderParams, indexes)"

definition fresh :: "(int, int, string) UserMarkGenerator" where
  "fresh = \<lparr>m_marks = fmempty, m_lines = fmempty, m_groupsVisibility = {||},
             m_marksIndex = fmempty, m_flushFn = ''flush''\<rparr>"

text \<open>
  For the generator with its pointers told apart: the render data again is the pair of the
  arguments, and \<open>cleared_generator\<close> is the fresh generator after
  \<^verbatim>\<open>SetUserMarks(7, [mark at 1])\<close> and \<^verbatim>\<open>ClearUserMarks(7)\<close>.
\<close>

definition example_cache_unchecked ::
  "int \<Rightarrow> unit \<Rightarrow> int UserMarksRenderCollection option \<Rightarrow> 32 word list
     \<Rightarrow> int UserMarksRenderCollection option \<times> 32 word list" where
  "example_cache_unchecked tileKey textures renderParams indexes = (renderParams, indexes)"

definition cleared_generator :: "(int, int, string) UncheckedGenerator" where
  "cleared_generator = ClearUserMarks_unchecked example_tile 2 7
     \<lparr>generator = SetUserMarks example_tile 2 7 [\<lparr>m_pivot = 1\<rparr>] fresh, null_marks = {||}\<rparr>"

section \<open>Properties\<close>

subsection \<open>The position lists after each step\<close>

lemma mark_positions_push_mark:
  "mark_positions (push_mark t g i idx) t' g' =
     (if t' = t \<and> g' = g then mark_positions idx t g @ [of_nat i] else mark_positions idx t' g')"
  by (auto simp: mark_positions_def push_mark_def at_indexes_def GetIndexesCollection_def
      Let_def split: option.splits)

lemma line_positions_push_mark:
  "line_positions (push_mark t g i idx) t' g' = line_positions idx t' g'"
  by (auto simp: line_positions_def push_mark_def at_indexes_def GetIndexesCollection_def
      Let_def split: option.splits)

lemma line_positions_push_line:
  "line_positions (push_line t g i idx) t' g' =
     (if t' = t \<and> g' = g then line_positions idx t g @ [of_nat i] else line_positions idx t' g')"
  by (auto simp: line_positions_def push_line_def at_indexes_def GetIndexesCollection_def
      Let_def split: option.splits)

lemma mark_positions_push_line:
  "mark_positions (push_line t g i idx) t' g' = mark_positions idx t' g'"
  by (auto simp: mark_positions_def push_line_def at_indexes_def GetIndexesCollection_def
      Let_def split: option.splits)

lemma mark_positions_clear_marks:
  "mark_positions (fmmap (clear_markIndexes g) idx) t g' =
     (if g' = g then [] else mark_positions idx t g')"
  by (auto simp: mark_positions_def clear_markIndexes_def split: option.splits)

lemma line_positions_clear_marks:
  "line_positions (fmmap (clear_markIndexes g) idx) t g' = line_positions idx t g'"
  by (auto simp: line_positions_def clear_markIndexes_def split: option.splits)

lemma line_positions_clear_lines:
  "line_positions (fmmap (clear_lineIndexes g) idx) t g' =
     (if g' = g then [] else line_positions idx t g')"
  by (auto simp: line_positions_def clear_lineIndexes_def split: option.splits)

lemma mark_positions_clear_lines:
  "mark_positions (fmmap (clear_lineIndexes g) idx) t g' = mark_positions idx t g'"
  by (auto simp: mark_positions_def clear_lineIndexes_def split: option.splits)

lemma mark_positions_CleanIndex:
  "mark_positions (m_marksIndex (CleanIndex s)) t g = mark_positions (m_marksIndex s) t g"
  by (auto simp: mark_positions_def CleanIndex_def Let_def split: option.splits dest!: fmdomI)

lemma line_positions_CleanIndex:
  "line_positions (m_marksIndex (CleanIndex s)) t g = line_positions (m_marksIndex s) t g"
  by (auto simp: line_positions_def CleanIndex_def Let_def split: option.splits dest!: fmdomI)

lemma mark_positions_zoom_loop:
  "mark_positions (foldl (\<lambda>idx z. push_mark (tk p z) g i idx) idx zs) t g' =
     (if g' = g then mark_positions idx t g @ map (\<lambda>z. of_nat i) (filter (\<lambda>z. tk p z = t) zs)
      else mark_positions idx t g')"
  by (induction zs arbitrary: idx) (auto simp: mark_positions_push_mark)

lemma mark_positions_mark_loop:
  "mark_positions
     (foldl (\<lambda>idx i. foldl (\<lambda>idx z. push_mark (tk (m_pivot (marks ! i)) z) g i idx) idx zs) idx js)
     t g' =
   (if g' = g
    then mark_positions idx t g @
         concat (map (\<lambda>i. map (\<lambda>z. of_nat i) (filter (\<lambda>z. tk (m_pivot (marks ! i)) z = t) zs)) js)
    else mark_positions idx t g')"
  by (induction js arbitrary: idx) (auto simp: mark_positions_zoom_loop)

lemma line_positions_zoom_loop_marks:
  "line_positions (foldl (\<lambda>idx z. push_mark (tk p z) g i idx) idx zs) t g' = line_positions idx t g'"
  by (induction zs arbitrary: idx) (auto simp: line_positions_push_mark)

lemma line_positions_mark_loop:
  "line_positions
     (foldl (\<lambda>idx i. foldl (\<lambda>idx z. push_mark (tk (m_pivot (marks ! i)) z) g i idx) idx zs) idx js)
     t g' = line_positions idx t g'"
  by (induction js arbitrary: idx) (auto simp: line_positions_zoom_loop_marks)

lemma line_positions_tile_loop:
  "distinct ts \<Longrightarrow>
   line_positions (foldl (\<lambda>idx t'. push_line t' g j idx) idx ts) t g' =
     (if g' = g \<and> t \<in> set ts then line_positions idx t g @ [of_nat j]
      else line_positions idx t g')"
  by (induction ts arbitrary: idx) (auto simp: line_positions_push_line)

lemma set_line_tiles_aux:
  "set (foldl (\<lambda>tiles pt. insort_insert (tk pt z) tiles) acc pts) = set acc \<union> (\<lambda>pt. tk pt z) ` set pts"
  by (induction pts arbitrary: acc) (auto simp: set_insort_insert)

lemma distinct_line_tiles_aux:
  "distinct acc \<Longrightarrow> distinct (foldl (\<lambda>tiles pt. insort_insert (tk pt z) tiles) acc pts)"
  by (induction pts arbitrary: acc) (auto simp: distinct_insort_insert)

lemma set_line_tiles: "set (line_tiles tk pts z) = (\<lambda>pt. tk pt z) ` set pts"
  by (simp add: line_tiles_def set_line_tiles_aux)

lemma distinct_line_tiles: "distinct (line_tiles tk pts z)"
  by (simp add: line_tiles_def distinct_line_tiles_aux)

lemma line_positions_zoom_loop:
  "line_positions
     (foldl (\<lambda>idx z. foldl (\<lambda>idx t'. push_line t' g j idx) idx (line_tiles tk pts z)) idx zs) t g' =
     (if g' = g
      then line_positions idx t g @
           map (\<lambda>z. of_nat j) (filter (\<lambda>z. t \<in> (\<lambda>pt. tk pt z) ` set pts) zs)
      else line_positions idx t g')"
  by (induction zs arbitrary: idx)
     (auto simp: line_positions_tile_loop distinct_line_tiles set_line_tiles)

lemma line_positions_line_loop:
  "line_positions
     (foldl (\<lambda>idx j. foldl (\<lambda>idx z. foldl (\<lambda>idx t'. push_line t' g j idx) idx
                 (line_tiles tk (m_points (lines ! j)) z)) idx zs) idx js) t g' =
     (if g' = g
      then line_positions idx t g @
           concat (map (\<lambda>j. map (\<lambda>z. of_nat j)
                     (filter (\<lambda>z. t \<in> (\<lambda>pt. tk pt z) ` set (m_points (lines ! j))) zs)) js)
      else line_positions idx t g')"
  by (induction js arbitrary: idx) (auto simp: line_positions_zoom_loop)

lemma mark_positions_UpdateMarksIndex:
  "mark_positions (m_marksIndex (UpdateMarksIndex tk U g s)) t g' =
     (if g' = g
      then (case fmlookup (m_marks s) g of None \<Rightarrow> [] | Some marks \<Rightarrow> marks_of_tile tk U marks t)
      else mark_positions (m_marksIndex s) t g')"
  by (simp add: UpdateMarksIndex_def Let_def mark_positions_CleanIndex mark_positions_mark_loop
      mark_positions_clear_marks marks_of_tile_def split: option.splits)

lemma line_positions_UpdateMarksIndex:
  "line_positions (m_marksIndex (UpdateMarksIndex tk U g s)) t g' = line_positions (m_marksIndex s) t g'"
  by (simp add: UpdateMarksIndex_def Let_def line_positions_CleanIndex line_positions_mark_loop
      line_positions_clear_marks split: option.splits)

lemma of_nat_word32_inj:
  "i < 2 ^ 32 \<Longrightarrow> j < 2 ^ 32 \<Longrightarrow> (of_nat i :: 32 word) = of_nat j \<longleftrightarrow> i = j"
  by (simp add: word_of_nat_eq_iff take_bit_nat_eq_self)

lemma count_list_const_blocks:
  "count_list (concat (map (\<lambda>j. map (\<lambda>z. w j) (filter (P j) zs)) js)) x =
     length (concat (map (\<lambda>j. filter (P j) zs) (filter (\<lambda>j. w j = x) js)))"
  by (induction js) (auto simp: count_list_eq_length_filter)

lemma filter_eq_upt: "j < n \<Longrightarrow> filter (\<lambda>i. i = j) [0..<n] = [j]"
  by (induction n) (auto simp: less_Suc_eq)

lemma length_filter_le_one:
  "distinct zs \<Longrightarrow> (\<And>z z'. z \<in> set zs \<Longrightarrow> z' \<in> set zs \<Longrightarrow> P z \<Longrightarrow> P z' \<Longrightarrow> z = z')
     \<Longrightarrow> length (filter P zs) \<le> Suc 0"
proof (induction zs)
  case Nil
  then show ?case by simp
next
  case (Cons a zs)
  show ?case
  proof (cases "P a")
    case True
    have "filter P zs = []"
      using Cons.prems True by (auto simp: filter_empty_conv)
    with True show ?thesis by simp
  next
    case False
    with Cons show ?thesis by simp
  qed
qed

lemma line_positions_UpdateLinesIndex:
  "line_positions (m_marksIndex (UpdateLinesIndex tk U g s)) t g' =
     (if g' = g
      then (case fmlookup (m_lines s) g of None \<Rightarrow> [] | Some lines \<Rightarrow> lines_of_tile tk U lines t)
      else line_positions (m_marksIndex s) t g')"
  by (simp add: UpdateLinesIndex_def Let_def line_positions_CleanIndex line_positions_line_loop
      line_positions_clear_lines lines_of_tile_def split: option.splits)

lemma mark_positions_tile_loop:
  "mark_positions (foldl (\<lambda>idx t'. push_line t' g j idx) idx ts) t g' = mark_positions idx t g'"
  by (induction ts arbitrary: idx) (auto simp: mark_positions_push_line)

lemma mark_positions_zoom_loop_lines:
  "mark_positions
     (foldl (\<lambda>idx z. foldl (\<lambda>idx t'. push_line t' g j idx) idx (f z)) idx zs) t g' =
   mark_positions idx t g'"
  by (induction zs arbitrary: idx) (auto simp: mark_positions_tile_loop)

lemma mark_positions_line_loop:
  "mark_positions
     (foldl (\<lambda>idx j. foldl (\<lambda>idx z. foldl (\<lambda>idx t'. push_line t' g j idx) idx (f j z)) idx zs)
        idx js) t g' =
   mark_positions idx t g'"
  by (induction js arbitrary: idx) (auto simp: mark_positions_zoom_loop_lines)

lemma mark_positions_UpdateLinesIndex:
  "mark_positions (m_marksIndex (UpdateLinesIndex tk U g s)) t g' = mark_positions (m_marksIndex s) t g'"
  by (simp add: UpdateLinesIndex_def Let_def mark_positions_CleanIndex mark_positions_line_loop
      mark_positions_clear_lines split: option.splits)

lemma line_positions_SetUserLines:
  "fmlookup (m_lines s) g = None \<Longrightarrow>
   line_positions (m_marksIndex (SetUserLines tk U g lines s)) t g = lines_of_tile tk U lines t"
  by (simp add: SetUserLines_def line_positions_UpdateLinesIndex map_insert_def)

lemma set_const_blocks:
  "x \<in> set (concat (map (\<lambda>j. map (\<lambda>z. w j) (filter (P j) zs)) js)) \<longleftrightarrow>
     (\<exists>j\<in>set js. w j = x \<and> (\<exists>z\<in>set zs. P j z))"
  by (induction js) auto

lemma set_lines_of_tile:
  assumes "length lines \<le> 2 ^ 32" and "j < length lines"
  shows "of_nat j \<in> set (lines_of_tile tk U lines t) \<longleftrightarrow>
           (\<exists>z\<in>{1..U}. \<exists>v\<in>set (m_points (lines ! j)). t = tk v z)"
proof -
  have inj: "(of_nat j' :: 32 word) = of_nat j \<longleftrightarrow> j' = j" if "j' < length lines" for j'
    using assms that by (intro of_nat_word32_inj) auto
  have "of_nat j \<in> set (lines_of_tile tk U lines t) \<longleftrightarrow>
        (\<exists>j'\<in>set [0..<length lines]. (of_nat j' :: 32 word) = of_nat j \<and>
           (\<exists>z\<in>set [1..U]. t \<in> (\<lambda>pt. tk pt z) ` set (m_points (lines ! j'))))"
    unfolding lines_of_tile_def by (rule set_const_blocks)
  also have "\<dots> \<longleftrightarrow> (\<exists>z\<in>set [1..U]. t \<in> (\<lambda>pt. tk pt z) ` set (m_points (lines ! j)))"
    using assms(2) inj by auto
  also have "\<dots> \<longleftrightarrow> (\<exists>z\<in>{1..U}. \<exists>v\<in>set (m_points (lines ! j)). t = tk v z)"
    by (simp only: set_upto) blast
  finally show ?thesis .
qed

lemma count_lines_of_tile:
  assumes "length lines \<le> 2 ^ 32" and "j < length lines"
  shows "count_list (lines_of_tile tk U lines t) (of_nat j) =
           length (filter (\<lambda>z. \<exists>v\<in>set (m_points (lines ! j)). t = tk v z) [1..U])"
proof -
  have inj: "\<And>j'. j' \<in> set [0..<length lines] \<Longrightarrow> ((of_nat j' :: 32 word) = of_nat j) = (j' = j)"
    using assms by (intro of_nat_word32_inj) auto
  have "filter (\<lambda>j'. (of_nat j' :: 32 word) = of_nat j) [0..<length lines] =
        filter (\<lambda>j'. j' = j) [0..<length lines]"
    by (rule filter_cong) (auto simp: inj)
  also have "\<dots> = [j]"
    using assms(2) by (rule filter_eq_upt)
  finally have sel: "filter (\<lambda>j'. (of_nat j' :: 32 word) = of_nat j) [0..<length lines] = [j]" .
  have "(\<lambda>z. t \<in> (\<lambda>pt. tk pt z) ` set (m_points (lines ! j))) =
        (\<lambda>z. \<exists>v\<in>set (m_points (lines ! j)). t = tk v z)"
    by auto
  then show ?thesis
    unfolding lines_of_tile_def count_list_const_blocks sel by simp
qed

subsection \<open>The loop of GenerateUserMarksGeometry\<close>

lemma GenerateGroups_error:
  "GenerateGroups C s t tex gs = Inl e \<Longrightarrow>
     e = NullDereference \<and> (\<exists>g\<in>fst ` set gs. fmlookup (m_marks s) g = None)"
  by (induction gs) (auto split: option.splits if_splits sum.splits simp: Let_def)

lemma GenerateGroups_calls:
  "(\<And>g. g \<in> fst ` set gs \<Longrightarrow> fmlookup (m_marks s) g \<noteq> None) \<Longrightarrow>
   GenerateGroups C s t tex gs =
     Inr (map (\<lambda>(g, ic). FlushCall (m_flushFn s) g
                 (C t tex (the (fmlookup (m_marks s) g)) (m_markIndexes ic)))
            (filter (\<lambda>(g, ic). g |\<in>| m_groupsVisibility s) gs))"
  by (induction gs) (auto split: option.splits simp: Let_def)

lemma GenerateGroups_Inr_marks:
  "GenerateGroups C s t tex gs = Inr calls \<Longrightarrow>
     \<forall>g\<in>fst ` set gs. fmlookup (m_marks s) g \<noteq> None"
  by (induction gs arbitrary: calls)
     (fastforce split: option.splits if_splits sum.splits simp: Let_def)+

lemma GenerateGroups_fails:
  assumes "g \<in> fst ` set gs" and "fmlookup (m_marks s) g = None"
  shows "GenerateGroups C s t tex gs = Inl NullDereference"
proof (cases "GenerateGroups C s t tex gs")
  case (Inl e)
  then show ?thesis using GenerateGroups_error[OF Inl] by simp
next
  case (Inr calls)
  then show ?thesis using GenerateGroups_Inr_marks[OF Inr] assms by blast
qed

lemma set_sorted_list_of_fmap:
  "(g, v) \<in> set (sorted_list_of_fmap m) \<longleftrightarrow> fmlookup m g = Some v"
  by (auto simp: sorted_list_of_fmap_def fmlookup_dom_iff)

lemma distinct_sorted_list_of_fmap: "distinct (map fst (sorted_list_of_fmap m))"
  by (simp add: sorted_list_of_fmap_def comp_def sorted_list_of_fset.rep_eq)

lemma filter_key_distinct:
  "distinct (map fst xs) \<Longrightarrow> (k, v) \<in> set xs \<Longrightarrow> filter (\<lambda>p. fst p = k) xs = [(k, v)]"
  by (induction xs) (auto simp: filter_empty_conv rev_image_eqI)

lemma GenerateUserMarksGeometry_error_iff:
  "(\<exists>e. GenerateUserMarksGeometry C t tex s = Inl e) \<longleftrightarrow>
     (\<exists>tg. fmlookup (m_marksIndex s) t = Some tg \<and>
        (\<exists>g. g |\<in>| fmdom tg \<and> fmlookup (m_marks s) g = None))"
proof
  assume "\<exists>e. GenerateUserMarksGeometry C t tex s = Inl e"
  then obtain e tg where tg: "fmlookup (m_marksIndex s) t = Some tg"
    and "GenerateGroups C s t tex (sorted_list_of_fmap tg) = Inl e"
    by (auto simp: GenerateUserMarksGeometry_def split: option.splits sum.splits)
  then obtain g ic where "(g, ic) \<in> set (sorted_list_of_fmap tg)" "fmlookup (m_marks s) g = None"
    using GenerateGroups_error by fastforce
  with tg show "\<exists>tg. fmlookup (m_marksIndex s) t = Some tg \<and>
        (\<exists>g. g |\<in>| fmdom tg \<and> fmlookup (m_marks s) g = None)"
    by (auto simp: set_sorted_list_of_fmap intro: fmdomI)
next
  assume "\<exists>tg. fmlookup (m_marksIndex s) t = Some tg \<and>
        (\<exists>g. g |\<in>| fmdom tg \<and> fmlookup (m_marks s) g = None)"
  then obtain tg g where tg: "fmlookup (m_marksIndex s) t = Some tg"
    and g: "g |\<in>| fmdom tg" "fmlookup (m_marks s) g = None"
    by blast
  from g(1) obtain ic where "fmlookup tg g = Some ic"
    by (auto simp: fmlookup_dom_iff)
  then have "g \<in> fst ` set (sorted_list_of_fmap tg)"
    by (intro image_eqI[of _ _ "(g, ic)"]) (simp_all add: set_sorted_list_of_fmap)
  then have "GenerateGroups C s t tex (sorted_list_of_fmap tg) = Inl NullDereference"
    using g(2) by (rule GenerateGroups_fails)
  with tg show "\<exists>e. GenerateUserMarksGeometry C t tex s = Inl e"
    by (simp add: GenerateUserMarksGeometry_def)
qed

lemma GenerateUserMarksGeometry_error:
  "GenerateUserMarksGeometry C t tex s = Inl e \<Longrightarrow> e = NullDereference"
  by (auto simp: GenerateUserMarksGeometry_def split: option.splits sum.splits
      dest: GenerateGroups_error)

lemma GenerateGroups_cong:
  "m_marks s' = m_marks s \<Longrightarrow> m_flushFn s' = m_flushFn s \<Longrightarrow>
   (\<And>g. g \<in> fst ` set gs \<Longrightarrow> g |\<in>| m_groupsVisibility s' \<longleftrightarrow> g |\<in>| m_groupsVisibility s) \<Longrightarrow>
   GenerateGroups C s' t tex gs = GenerateGroups C s t tex gs"
  by (induction gs) (auto split: option.splits sum.splits simp: Let_def)

lemma GenerateGroups_other_groups:
  "m_marks s' = m_marks s \<Longrightarrow> m_flushFn s' = m_flushFn s \<Longrightarrow>
   (\<And>g'. g' \<noteq> g \<Longrightarrow> g' |\<in>| m_groupsVisibility s' \<longleftrightarrow> g' |\<in>| m_groupsVisibility s) \<Longrightarrow>
   map_sum id (filter (\<lambda>c. call_group c \<noteq> g)) (GenerateGroups C s' t tex gs) =
   map_sum id (filter (\<lambda>c. call_group c \<noteq> g)) (GenerateGroups C s t tex gs)"
  by (induction gs) (auto split: option.splits sum.splits simp: Let_def)

lemma GenerateGroups_sink:
  "GenerateGroups C s t tex gs = Inr calls \<Longrightarrow> \<forall>c\<in>set calls. call_sink c = m_flushFn s"
  by (induction gs arbitrary: calls)
     (fastforce split: option.splits if_splits sum.splits simp: Let_def)+

lemma GenerateGroups_line_data:
  "m_marks s' = m_marks s \<Longrightarrow> m_flushFn s' = m_flushFn s \<Longrightarrow>
   m_groupsVisibility s' = m_groupsVisibility s \<Longrightarrow>
   GenerateGroups C s' t tex (map (\<lambda>(g, ic). (g, m_lineIndexes_update f ic)) gs) =
   GenerateGroups C s t tex gs"
  by (induction gs) (auto split: option.splits sum.splits simp: Let_def)

lemma sorted_list_of_fmap_fmmap:
  "sorted_list_of_fmap (fmmap h m) = map (\<lambda>(g, v). (g, h v)) (sorted_list_of_fmap m)"
  unfolding sorted_list_of_fmap_def
  by (auto simp: fmlookup_dom_iff sorted_list_of_fset.rep_eq)

subsection \<open>Visibility\<close>

lemma SetGroupVisibility_fields:
  "m_marksIndex (SetGroupVisibility g v s) = m_marksIndex s"
  "m_marks (SetGroupVisibility g v s) = m_marks s"
  "m_lines (SetGroupVisibility g v s) = m_lines s"
  "m_flushFn (SetGroupVisibility g v s) = m_flushFn s"
  by (simp_all add: SetGroupVisibility_def)

lemma SetGroupVisibility_foldl_fields:
  "m_marksIndex (foldl (\<lambda>s v. SetGroupVisibility g v s) s vs) = m_marksIndex s"
  "m_marks (foldl (\<lambda>s v. SetGroupVisibility g v s) s vs) = m_marks s"
  "m_lines (foldl (\<lambda>s v. SetGroupVisibility g v s) s vs) = m_lines s"
  "m_flushFn (foldl (\<lambda>s v. SetGroupVisibility g v s) s vs) = m_flushFn s"
  by (induction vs arbitrary: s) (simp_all add: SetGroupVisibility_fields)

lemma SetGroupVisibility_foldl_visibility:
  "m_groupsVisibility (foldl (\<lambda>s v. SetGroupVisibility g v s) s vs) =
     (if vs = [] then m_groupsVisibility s
      else if last vs then finsert g (m_groupsVisibility s)
      else m_groupsVisibility s |-| {|g|})"
  by (induction vs arbitrary: s) (auto simp: SetGroupVisibility_def)

lemma GenerateUserMarksGeometry_other_groups:
  assumes "m_marksIndex s' = m_marksIndex s" and "m_marks s' = m_marks s"
    and "m_flushFn s' = m_flushFn s"
    and "\<And>g'. g' \<noteq> g \<Longrightarrow> g' |\<in>| m_groupsVisibility s' \<longleftrightarrow> g' |\<in>| m_groupsVisibility s"
  shows "map_sum id (\<lambda>r. filter (\<lambda>c. call_group c \<noteq> g) (fst r))
           (GenerateUserMarksGeometry C t tex s') =
         map_sum id (\<lambda>r. filter (\<lambda>c. call_group c \<noteq> g) (fst r))
           (GenerateUserMarksGeometry C t tex s)"
proof (cases "fmlookup (m_marksIndex s) t")
  case None
  then show ?thesis using assms(1) by (simp add: GenerateUserMarksGeometry_def)
next
  case (Some tg)
  have "map_sum id (filter (\<lambda>c. call_group c \<noteq> g))
          (GenerateGroups C s' t tex (sorted_list_of_fmap tg)) =
        map_sum id (filter (\<lambda>c. call_group c \<noteq> g))
          (GenerateGroups C s t tex (sorted_list_of_fmap tg))"
    using assms(2,3,4) by (rule GenerateGroups_other_groups)
  then show ?thesis
    using Some assms(1)
    by (cases "GenerateGroups C s' t tex (sorted_list_of_fmap tg)";
        cases "GenerateGroups C s t tex (sorted_list_of_fmap tg)")
       (simp_all add: GenerateUserMarksGeometry_def)
qed

subsection \<open>Clearing a group\<close>

lemma ClearUserMarks_eq:
  "ClearUserMarks tk U g s =
     s\<lparr>m_groupsVisibility := m_groupsVisibility s |-| {|g|},
       m_marks := fmdrop g (m_marks s),
       m_lines := fmdrop g (m_lines s),
       m_marksIndex := fmmap (clear_lineIndexes g) (fmmap (clear_markIndexes g) (m_marksIndex s))\<rparr>"
  by (simp add: ClearUserMarks_def UpdateMarksIndex_def UpdateLinesIndex_def Let_def)

lemma clear_indexes_absent:
  "g |\<notin>| fmdom tg \<Longrightarrow> clear_markIndexes g tg = tg"
  "g |\<notin>| fmdom tg \<Longrightarrow> clear_lineIndexes g tg = tg"
  by (auto simp: clear_markIndexes_def clear_lineIndexes_def split: option.splits)

lemma clear_indexes_twice:
  "clear_lineIndexes g (clear_markIndexes g (clear_lineIndexes g (clear_markIndexes g tg))) =
   clear_lineIndexes g (clear_markIndexes g tg)"
  by (rule fmap_ext) (auto simp: clear_markIndexes_def clear_lineIndexes_def split: option.splits)

lemma fmmap_absent:
  assumes "\<And>tg. tg |\<in>| fmran idx \<Longrightarrow> h tg = tg"
  shows "fmmap h idx = idx"
proof (rule fmap_ext)
  fix t
  show "fmlookup (fmmap h idx) t = fmlookup idx t"
    by (cases "fmlookup idx t") (auto intro: assms fmranI)
qed

lemma ClearUserMarks_idempotent:
  "ClearUserMarks tk U g (ClearUserMarks tk U g s) = ClearUserMarks tk U g s"
proof -
  have "fmmap (clear_lineIndexes g) (fmmap (clear_markIndexes g)
          (fmmap (clear_lineIndexes g) (fmmap (clear_markIndexes g) (m_marksIndex s)))) =
        fmmap (clear_lineIndexes g) (fmmap (clear_markIndexes g) (m_marksIndex s))"
    by (rule fmap_ext) (simp add: option.map_comp comp_def clear_indexes_twice)
  then show ?thesis
    by (simp add: ClearUserMarks_eq)
qed

lemma ClearUserMarks_absent:
  assumes "g |\<notin>| fmdom (m_marks s)" and "g |\<notin>| fmdom (m_lines s)"
    and "\<And>tg. tg |\<in>| fmran (m_marksIndex s) \<Longrightarrow> g |\<notin>| fmdom tg"
  shows "ClearUserMarks tk U g s = s\<lparr>m_groupsVisibility := m_groupsVisibility s |-| {|g|}\<rparr>"
proof -
  have "fmmap (clear_markIndexes g) (m_marksIndex s) = m_marksIndex s"
    by (rule fmmap_absent) (simp add: assms(3) clear_indexes_absent)
  moreover have "fmmap (clear_lineIndexes g) (m_marksIndex s) = m_marksIndex s"
    by (rule fmmap_absent) (simp add: assms(3) clear_indexes_absent)
  ultimately show ?thesis
    using assms(1,2) by (simp add: ClearUserMarks_eq fmdrop_idle)
qed

lemma GenerateUserMarksGeometry_absent_group:
  assumes "\<And>tg. tg |\<in>| fmran (m_marksIndex s) \<Longrightarrow> g |\<notin>| fmdom tg"
  shows "map_sum id fst (GenerateUserMarksGeometry C t tex (SetGroupVisibility g v s)) =
         map_sum id fst (GenerateUserMarksGeometry C t tex s)"
proof (cases "fmlookup (m_marksIndex s) t")
  case None
  then show ?thesis
    by (simp add: GenerateUserMarksGeometry_def SetGroupVisibility_fields)
next
  case (Some tg)
  then have "g |\<notin>| fmdom tg"
    by (intro assms fmranI)
  then have "g \<notin> fst ` set (sorted_list_of_fmap tg)"
    by (auto simp: set_sorted_list_of_fmap intro: fmdomI)
  then have "GenerateGroups C (SetGroupVisibility g v s) t tex (sorted_list_of_fmap tg) =
        GenerateGroups C s t tex (sorted_list_of_fmap tg)"
    by (intro GenerateGroups_cong) (auto simp: SetGroupVisibility_def)
  then show ?thesis
    using Some
    by (cases "GenerateGroups C s t tex (sorted_list_of_fmap tg)")
       (simp_all add: GenerateUserMarksGeometry_def SetGroupVisibility_fields)
qed

subsection \<open>The flush function\<close>

lemma m_flushFn_Update:
  "m_flushFn (CleanIndex s) = m_flushFn s"
  "m_flushFn (UpdateMarksIndex tk U g s) = m_flushFn s"
  "m_flushFn (UpdateLinesIndex tk U g s) = m_flushFn s"
  by (simp_all add: CleanIndex_def UpdateMarksIndex_def UpdateLinesIndex_def Let_def
      split: option.splits)

lemma m_flushFn_run_command: "m_flushFn (run_command tk U s c) = m_flushFn s"
  by (cases c)
     (simp_all add: ClearUserMarks_def SetUserMarks_def SetUserLines_def SetGroupVisibility_def
       m_flushFn_Update)

lemma m_flushFn_run_commands: "m_flushFn (foldl (run_command tk U) s cs) = m_flushFn s"
  by (induction cs arbitrary: s) (simp_all add: m_flushFn_run_command)

lemma GenerateUserMarksGeometry_sink:
  "GenerateUserMarksGeometry C t tex s = Inr (calls, s') \<Longrightarrow>
     s' = s \<and> (\<forall>c\<in>set calls. call_sink c = m_flushFn s)"
  by (auto simp: GenerateUserMarksGeometry_def split: option.splits sum.splits
      dest: GenerateGroups_sink)

subsection \<open>The mark positions of a new group\<close>

lemma mark_positions_SetUserMarks:
  "fmlookup (m_marks s) g = None \<Longrightarrow>
   mark_positions (m_marksIndex (SetUserMarks tk U g marks s)) t g = marks_of_tile tk U marks t"
  by (simp add: SetUserMarks_def mark_positions_UpdateMarksIndex map_insert_def)

lemma set_marks_of_tile:
  assumes "i < length marks" and "z \<in> {1..U}"
  shows "of_nat i \<in> set (marks_of_tile tk U marks (tk (m_pivot (marks ! i)) z))"
  unfolding marks_of_tile_def set_const_blocks
  using assms by (intro bexI[of _ i] conjI bexI[of _ z]) simp_all

lemma sorted_map_const: "sorted (map (\<lambda>z. c) xs)"
  by (induction xs) auto

lemma sorted_const_blocks:
  "sorted_wrt (\<lambda>i j. w i \<le> w j) js \<Longrightarrow>
   sorted (concat (map (\<lambda>j. map (\<lambda>z. w j) (filter (P j) zs)) js))"
  by (induction js) (auto simp: sorted_append set_const_blocks sorted_map_const)

lemma sorted_marks_of_tile:
  assumes "length marks \<le> 2 ^ 32"
  shows "sorted (marks_of_tile tk U marks t)"
  unfolding marks_of_tile_def
proof (rule sorted_const_blocks)
  have "(of_nat i :: 32 word) \<le> of_nat j" if "i < j" "j < length marks" for i j
    using that assms by (simp add: word_of_nat_less_eq_iff take_bit_nat_eq_self)
  then show "sorted_wrt (\<lambda>i j. (of_nat i :: 32 word) \<le> of_nat j) [0..<length marks]"
    by (simp add: sorted_wrt_iff_nth_less)
qed

subsection \<open>What GenerateUserMarksGeometry reads\<close>

lemma GenerateGroups_calls_for:
  assumes "\<And>g'. g' \<in> fst ` set gs \<Longrightarrow> fmlookup (m_marks s) g' \<noteq> None"
    and "distinct (map fst gs)" and "(g, ic) \<in> set gs"
    and "g |\<in>| m_groupsVisibility s" and "fmlookup (m_marks s) g = Some marks"
  shows "\<exists>calls. GenerateGroups C s t tex gs = Inr calls \<and>
           filter (\<lambda>c. call_group c = g) calls =
             [FlushCall (m_flushFn s) g (C t tex marks (m_markIndexes ic))]"
proof -
  let ?F = "\<lambda>(g, ic). FlushCall (m_flushFn s) g
                 (C t tex (the (fmlookup (m_marks s) g)) (m_markIndexes ic))"
  let ?calls = "map ?F (filter (\<lambda>(g, ic). g |\<in>| m_groupsVisibility s) gs)"
  have run: "GenerateGroups C s t tex gs = Inr ?calls"
    using assms(1) by (rule GenerateGroups_calls)
  have "filter (\<lambda>c. call_group c = g) ?calls =
        map ?F (filter (\<lambda>p. fst p = g) (filter (\<lambda>(g, ic). g |\<in>| m_groupsVisibility s) gs))"
    by (simp add: filter_map comp_def case_prod_beta)
  also have "filter (\<lambda>p. fst p = g) (filter (\<lambda>(g, ic). g |\<in>| m_groupsVisibility s) gs) =
        filter (\<lambda>(g, ic). g |\<in>| m_groupsVisibility s) (filter (\<lambda>p. fst p = g) gs)"
    by (simp add: conj_commute)
  also have "filter (\<lambda>p. fst p = g) gs = [(g, ic)]"
    using assms(2,3) by (rule filter_key_distinct)
  finally have "filter (\<lambda>c. call_group c = g) ?calls =
        [FlushCall (m_flushFn s) g (C t tex marks (m_markIndexes ic))]"
    using assms(4,5) by simp
  with run show ?thesis by blast
qed

lemma GenerateUserMarksGeometry_line_data:
  "map_sum id fst
     (GenerateUserMarksGeometry C t tex
        (s\<lparr>m_lines := L,
           m_marksIndex := fmmap (fmmap (m_lineIndexes_update f)) (m_marksIndex s)\<rparr>)) =
   map_sum id fst (GenerateUserMarksGeometry C t tex s)"
proof (cases "fmlookup (m_marksIndex s) t")
  case None
  then show ?thesis by (simp add: GenerateUserMarksGeometry_def)
next
  case (Some tg)
  let ?s' = "s\<lparr>m_lines := L,
           m_marksIndex := fmmap (fmmap (m_lineIndexes_update f)) (m_marksIndex s)\<rparr>"
  have "GenerateGroups C ?s' t tex (sorted_list_of_fmap (fmmap (m_lineIndexes_update f) tg)) =
        GenerateGroups C s t tex (sorted_list_of_fmap tg)"
    unfolding sorted_list_of_fmap_fmmap by (rule GenerateGroups_line_data) simp_all
  then show ?thesis
    using Some
    by (cases "GenerateGroups C s t tex (sorted_list_of_fmap tg)")
       (simp_all add: GenerateUserMarksGeometry_def)
qed

subsection \<open>GenerateUserMarksGeometry after SetUserMarks\<close>

lemma m_marks_UpdateMarksIndex: "m_marks (UpdateMarksIndex tk U g s) = m_marks s"
  by (simp add: UpdateMarksIndex_def CleanIndex_def Let_def split: option.splits)

lemma GenerateUserMarksGeometry_after_SetUserMarks:
  assumes new: "fmlookup (m_marks s) g = None"
    and i: "i < length marks" and z: "z \<in> {1..U}" and len: "length marks \<le> 2 ^ 32"
    and s': "s' = SetGroupVisibility g True (SetUserMarks tk U g marks s)"
    and t: "t = tk (m_pivot (marks ! i)) z"
    and pre: "\<And>tg g'. fmlookup (m_marksIndex s') t = Some tg \<Longrightarrow> g' |\<in>| fmdom tg \<Longrightarrow>
                fmlookup (m_marks s') g' \<noteq> None"
  shows "\<exists>calls. GenerateUserMarksGeometry C t tex s' = Inr (calls, s') \<and>
           filter (\<lambda>c. call_group c = g) calls =
             [FlushCall (m_flushFn s') g (C t tex marks (marks_of_tile tk U marks t))] \<and>
           of_nat i \<in> set (marks_of_tile tk U marks t) \<and>
           sorted (marks_of_tile tk U marks t)"
proof -
  have mem: "of_nat i \<in> set (marks_of_tile tk U marks t)"
    unfolding t using i z by (rule set_marks_of_tile)
  have "mark_positions (m_marksIndex s') t g = marks_of_tile tk U marks t"
    unfolding s' SetGroupVisibility_fields using new by (rule mark_positions_SetUserMarks)
  with mem obtain tg ic where tg: "fmlookup (m_marksIndex s') t = Some tg"
    and ic: "fmlookup tg g = Some ic" "m_markIndexes ic = marks_of_tile tk U marks t"
    by (auto simp: mark_positions_def split: option.splits)
  have vis: "g |\<in>| m_groupsVisibility s'"
    by (simp add: s' SetGroupVisibility_def)
  have marks: "fmlookup (m_marks s') g = Some marks"
    using new by (simp add: s' SetGroupVisibility_fields SetUserMarks_def
        m_marks_UpdateMarksIndex map_insert_def)
  have "\<exists>calls. GenerateGroups C s' t tex (sorted_list_of_fmap tg) = Inr calls \<and>
           filter (\<lambda>c. call_group c = g) calls =
             [FlushCall (m_flushFn s') g (C t tex marks (m_markIndexes ic))]"
  proof (rule GenerateGroups_calls_for)
    fix g' assume "g' \<in> fst ` set (sorted_list_of_fmap tg)"
    then have "g' |\<in>| fmdom tg"
      by (auto simp: set_sorted_list_of_fmap intro: fmdomI)
    with tg show "fmlookup (m_marks s') g' \<noteq> None" by (rule pre)
  next
    show "distinct (map fst (sorted_list_of_fmap tg))"
      by (rule distinct_sorted_list_of_fmap)
    show "(g, ic) \<in> set (sorted_list_of_fmap tg)"
      using ic(1) by (simp add: set_sorted_list_of_fmap)
  qed (rule vis, rule marks)
  with tg ic(2) mem sorted_marks_of_tile[OF len] show ?thesis
    by (auto simp: GenerateUserMarksGeometry_def)
qed

subsection \<open>The generator with its pointers told apart\<close>

text \<open>
  Where \<open>GenerateUserMarksGeometry\<close> returns, the unchecked one makes the same calls and
  leaves no null pointer; where no null pointer is under the key, the unchecked
  \<open>SetUserMarks\<close> is \<open>SetUserMarks\<close>.
\<close>

lemma GenerateGroups_unchecked_agrees:
  "GenerateGroups C (generator u) t tex gs = Inr calls \<Longrightarrow>
   GenerateGroups_unchecked (\<lambda>t tex r. C t tex (the r)) u t tex gs = (calls, u)"
  by (induction gs arbitrary: calls)
     (auto simp: marks_at_def Let_def split: option.splits if_splits sum.splits)

lemma GenerateUserMarksGeometry_unchecked_agrees:
  "GenerateUserMarksGeometry C t tex (generator u) = Inr (calls, s') \<Longrightarrow>
   GenerateUserMarksGeometry_unchecked (\<lambda>t tex r. C t tex (the r)) t tex u = (calls, u)"
  by (auto simp: GenerateUserMarksGeometry_def GenerateUserMarksGeometry_unchecked_def
      GenerateGroups_unchecked_agrees split: option.splits sum.splits)

lemma SetUserMarks_unchecked_agrees:
  "groupId |\<notin>| null_marks u \<Longrightarrow>
   SetUserMarks_unchecked tk U groupId marks u =
     Inr (u\<lparr>generator := SetUserMarks tk U groupId marks (generator u)\<rparr>)"
  by (simp add: SetUserMarks_unchecked_def UpdateMarksIndex_unchecked_def SetUserMarks_def)

text \<open>
  A group with lines only beside a visible group with a mark: the unchecked
  \<^verbatim>\<open>GenerateUserMarksGeometry\<close> passes over group 1, leaves a null pointer under its key and
  calls the flush function for group 2 once.
\<close>

lemma GenerateUserMarksGeometry_unchecked_lines_only_neighbour:
  "GenerateUserMarksGeometry_unchecked example_cache_unchecked 101 ()
     \<lparr>generator = SetGroupVisibility 2 True (SetUserMarks example_tile 2 2 [\<lparr>m_pivot = 1\<rparr>]
        (SetUserLines example_tile 2 1 [\<lparr>m_points = [1]\<rparr>] fresh)), null_marks = {||}\<rparr> =
   ([FlushCall ''flush'' 2 (Some [\<lparr>m_pivot = 1\<rparr>], [0])],
    \<lparr>generator = SetGroupVisibility 2 True (SetUserMarks example_tile 2 2 [\<lparr>m_pivot = 1\<rparr>]
        (SetUserLines example_tile 2 1 [\<lparr>m_points = [1]\<rparr>] fresh)), null_marks = {|1|}\<rparr>)"
  by code_simp

text \<open>
  The calls of the unchecked \<^verbatim>\<open>GenerateUserMarksGeometry\<close>: one for every visible group of
  the tile, whatever the pointers of the other groups. So for a group that is no key of
  \<^verbatim>\<open>m_marks\<close>, after \<^verbatim>\<open>SetUserMarks\<close> the flush function is called once for it on the tile of
  each of its marks, with the positions of that tile.
\<close>

lemma generator_marks_at: "generator (snd (marks_at g u)) = generator u"
  "fst (marks_at g u) = fmlookup (m_marks (generator u)) g"
  by (simp_all add: marks_at_def split: option.splits)

lemma GenerateGroups_unchecked_calls:
  "generator (snd (GenerateGroups_unchecked C u t tex gs)) = generator u \<and>
   fst (GenerateGroups_unchecked C u t tex gs) =
     map (\<lambda>(g, ic). FlushCall (m_flushFn (generator u)) g
            (C t tex (fmlookup (m_marks (generator u)) g) (m_markIndexes ic)))
       (filter (\<lambda>(g, ic). g |\<in>| m_groupsVisibility (generator u)) gs)"
proof (induction gs arbitrary: u)
  case Nil
  then show ?case by simp
next
  case (Cons p gs)
  obtain g ic where p: "p = (g, ic)" by (cases p)
  obtain r u1 where m: "marks_at g u = (r, u1)" by (cases "marks_at g u")
  from m have u1: "generator u1 = generator u" and r: "r = fmlookup (m_marks (generator u)) g"
    using generator_marks_at[of g u] by simp_all
  show ?case
    using Cons.IH[of u1] u1 r
    by (simp add: p m Let_def case_prod_beta)
qed

lemma GenerateUserMarksGeometry_unchecked_after_SetUserMarks:
  assumes new: "fmlookup (m_marks (generator u)) g = None" "g |\<notin>| null_marks u"
    and i: "i < length marks" and z: "z \<in> {1..U}"
    and set: "SetUserMarks_unchecked tk U g marks u = Inr u1"
    and u': "u' = u1\<lparr>generator := SetGroupVisibility g True (generator u1)\<rparr>"
    and t: "t = tk (m_pivot (marks ! i)) z"
  shows "filter (\<lambda>c. call_group c = g)
           (fst (GenerateUserMarksGeometry_unchecked C t tex u')) =
             [FlushCall (m_flushFn (generator u')) g
                (C t tex (Some marks) (marks_of_tile tk U marks t))] \<and>
         of_nat i \<in> set (marks_of_tile tk U marks t)"
proof -
  have u1: "u1 = u\<lparr>generator := SetUserMarks tk U g marks (generator u)\<rparr>"
    using set new(2) by (simp add: SetUserMarks_unchecked_agrees)
  have gen: "generator u' = SetGroupVisibility g True (SetUserMarks tk U g marks (generator u))"
    by (simp add: u' u1)
  have mem: "of_nat i \<in> set (marks_of_tile tk U marks t)"
    unfolding t using i z by (rule set_marks_of_tile)
  have "mark_positions (m_marksIndex (generator u')) t g = marks_of_tile tk U marks t"
    unfolding gen SetGroupVisibility_fields using new(1) by (rule mark_positions_SetUserMarks)
  with mem obtain tg ic where tg: "fmlookup (m_marksIndex (generator u')) t = Some tg"
    and ic: "fmlookup tg g = Some ic" "m_markIndexes ic = marks_of_tile tk U marks t"
    by (auto simp: mark_positions_def split: option.splits)
  have vis: "g |\<in>| m_groupsVisibility (generator u')"
    by (simp add: gen SetGroupVisibility_def)
  have marks: "fmlookup (m_marks (generator u')) g = Some marks"
    using new(1) by (simp add: gen SetGroupVisibility_fields SetUserMarks_def
        m_marks_UpdateMarksIndex map_insert_def)
  let ?F = "\<lambda>(g, ic). FlushCall (m_flushFn (generator u')) g
            (C t tex (fmlookup (m_marks (generator u')) g) (m_markIndexes ic))"
  let ?gs = "sorted_list_of_fmap tg"
  have "fst (GenerateUserMarksGeometry_unchecked C t tex u') =
        map ?F (filter (\<lambda>(g, ic). g |\<in>| m_groupsVisibility (generator u')) ?gs)"
    using tg by (simp add: GenerateUserMarksGeometry_unchecked_def GenerateGroups_unchecked_calls)
  then have "filter (\<lambda>c. call_group c = g) (fst (GenerateUserMarksGeometry_unchecked C t tex u')) =
        map ?F (filter (\<lambda>(g, ic). g |\<in>| m_groupsVisibility (generator u'))
          (filter (\<lambda>p. fst p = g) ?gs))"
    by (simp add: filter_map comp_def case_prod_beta conj_commute)
  also have "filter (\<lambda>p. fst p = g) ?gs = [(g, ic)]"
    by (rule filter_key_distinct)
       (simp_all add: distinct_sorted_list_of_fmap set_sorted_list_of_fmap ic(1))
  finally show ?thesis
    using vis marks ic(2) mem by simp
qed

section \<open>The claims\<close>

subsection \<open>C1: a second SetUserMarks for a group\<close>

text \<open>
  C1 (a defect of the code). \<^verbatim>\<open>SetUserMarks\<close> puts the collection into \<^verbatim>\<open>m_marks\<close> with
  \<^verbatim>\<open>std::map::insert\<close>, which does nothing when the group already has one. After
  \<^verbatim>\<open>SetUserMarks(7, [mark at 1])\<close> and \<^verbatim>\<open>SetUserMarks(7, [mark at 5])\<close> the generator still
  holds the mark at point 1: tile 101 holds position 0 for group 7, tile 501 has no entry,
  and with group 7 visible \<^verbatim>\<open>GenerateUserMarksGeometry\<close> calls the flush function on tile
  101 and not on tile 501.
\<close>

theorem SetUserMarks_keeps_first_collection:
  "fmlookup (m_marks (SetUserMarks example_tile 2 7 [\<lparr>m_pivot = 5\<rparr>]
       (SetUserMarks example_tile 2 7 [\<lparr>m_pivot = 1\<rparr>] fresh))) 7 = Some [\<lparr>m_pivot = 1\<rparr>]
   \<and> mark_positions (m_marksIndex (SetUserMarks example_tile 2 7 [\<lparr>m_pivot = 5\<rparr>]
       (SetUserMarks example_tile 2 7 [\<lparr>m_pivot = 1\<rparr>] fresh))) 101 7 = [0]
   \<and> fmlookup (m_marksIndex (SetUserMarks example_tile 2 7 [\<lparr>m_pivot = 5\<rparr>]
       (SetUserMarks example_tile 2 7 [\<lparr>m_pivot = 1\<rparr>] fresh))) 501 = None
   \<and> GenerateUserMarksGeometry example_cache 101 ()
       (SetGroupVisibility 7 True (SetUserMarks example_tile 2 7 [\<lparr>m_pivot = 5\<rparr>]
         (SetUserMarks example_tile 2 7 [\<lparr>m_pivot = 1\<rparr>] fresh))) =
      Inr ([FlushCall ''flush'' 7 ([\<lparr>m_pivot = 1\<rparr>], [0])],
           SetGroupVisibility 7 True (SetUserMarks example_tile 2 7 [\<lparr>m_pivot = 5\<rparr>]
             (SetUserMarks example_tile 2 7 [\<lparr>m_pivot = 1\<rparr>] fresh)))
   \<and> GenerateUserMarksGeometry example_cache 501 ()
       (SetGroupVisibility 7 True (SetUserMarks example_tile 2 7 [\<lparr>m_pivot = 5\<rparr>]
         (SetUserMarks example_tile 2 7 [\<lparr>m_pivot = 1\<rparr>] fresh))) =
      Inr ([], SetGroupVisibility 7 True (SetUserMarks example_tile 2 7 [\<lparr>m_pivot = 5\<rparr>]
             (SetUserMarks example_tile 2 7 [\<lparr>m_pivot = 1\<rparr>] fresh)))"
  by code_simp

subsection \<open>C2: empty entries in the index\<close>

text \<open>
  C2 (a defect of the code). \<^verbatim>\<open>UpdateMarksIndex\<close> and \<^verbatim>\<open>UpdateLinesIndex\<close> return before
  \<^verbatim>\<open>CleanIndex\<close> when the group has no collection, which is always the case in
  \<^verbatim>\<open>ClearUserMarks\<close>: after \<^verbatim>\<open>SetUserMarks(7, [mark at 1])\<close> and \<^verbatim>\<open>ClearUserMarks(7)\<close> tile
  101 holds an entry for group 7 with both lists empty. And \<^verbatim>\<open>CleanIndex\<close> erases the empty
  tiles before it erases the empty groups: after a further \<^verbatim>\<open>SetUserMarks(7, [mark at 5])\<close>
  tile 101 is in the index with no group at all.
\<close>

theorem ClearUserMarks_leaves_empty_entries:
  "fmlookup (m_marksIndex (ClearUserMarks example_tile 2 7
       (SetUserMarks example_tile 2 7 [\<lparr>m_pivot = 1\<rparr>] fresh))) 101 =
     Some (fmupd 7 \<lparr>m_markIndexes = [], m_lineIndexes = []\<rparr> fmempty)
   \<and> fmlookup (m_marksIndex (SetUserMarks example_tile 2 7 [\<lparr>m_pivot = 5\<rparr>]
       (ClearUserMarks example_tile 2 7
         (SetUserMarks example_tile 2 7 [\<lparr>m_pivot = 1\<rparr>] fresh)))) 101 = Some fmempty"
  by code_simp

subsection \<open>C3: ClearUserMarks and the index\<close>

text \<open>
  C3 (a defect of the code). After \<^verbatim>\<open>SetUserMarks(7, [mark at 1])\<close>,
  \<^verbatim>\<open>SetGroupVisibility(7, true)\<close> and \<^verbatim>\<open>ClearUserMarks(7)\<close> group 7 is out of the visibility
  set and has no collection, but tile 101 still holds an entry for it: the early return of
  C2. After \<^verbatim>\<open>SetGroupVisibility(7, true)\<close>, \<^verbatim>\<open>GenerateUserMarksGeometry\<close> on tile 101 finds
  the entry and dereferences the mark collection that is no longer there.
\<close>

theorem ClearUserMarks_then_visible:
  "7 |\<notin>| m_groupsVisibility (ClearUserMarks example_tile 2 7
       (SetGroupVisibility 7 True (SetUserMarks example_tile 2 7 [\<lparr>m_pivot = 1\<rparr>] fresh)))
   \<and> fmlookup (m_marks (ClearUserMarks example_tile 2 7
       (SetGroupVisibility 7 True (SetUserMarks example_tile 2 7 [\<lparr>m_pivot = 1\<rparr>] fresh)))) 7 = None
   \<and> fmlookup (m_lines (ClearUserMarks example_tile 2 7
       (SetGroupVisibility 7 True (SetUserMarks example_tile 2 7 [\<lparr>m_pivot = 1\<rparr>] fresh)))) 7 = None
   \<and> fmlookup (m_marksIndex (ClearUserMarks example_tile 2 7
       (SetGroupVisibility 7 True (SetUserMarks example_tile 2 7 [\<lparr>m_pivot = 1\<rparr>] fresh)))) 101 =
      Some (fmupd 7 \<lparr>m_markIndexes = [], m_lineIndexes = []\<rparr> fmempty)
   \<and> GenerateUserMarksGeometry example_cache 101 ()
       (SetGroupVisibility 7 True (ClearUserMarks example_tile 2 7
         (SetGroupVisibility 7 True (SetUserMarks example_tile 2 7 [\<lparr>m_pivot = 1\<rparr>] fresh)))) =
      Inl NullDereference"
  by code_simp

subsection \<open>C4: lines in GenerateUserMarksGeometry\<close>

text \<open>
  As stated, C4 fails. Group 1 below is visible, has a collection of two lines, and tile 101
  holds the line positions \<open>[0, 1]\<close> for it; \<^verbatim>\<open>GenerateUserMarksGeometry\<close> on tile 101 makes
  one call of the flush function, with the render data built from the mark collection and
  the mark positions \<open>[0]\<close>. Nothing is built from the lines.
\<close>

theorem GenerateUserMarksGeometry_lines_counterexample:
  "fmlookup (m_lines (SetGroupVisibility 1 True (SetUserMarks example_tile 2 1 [\<lparr>m_pivot = 1\<rparr>]
       (SetUserLines example_tile 2 1 [\<lparr>m_points = [1]\<rparr>, \<lparr>m_points = [1]\<rparr>] fresh)))) 1 =
     Some [\<lparr>m_points = [1]\<rparr>, \<lparr>m_points = [1]\<rparr>]
   \<and> 1 |\<in>| m_groupsVisibility (SetGroupVisibility 1 True (SetUserMarks example_tile 2 1 [\<lparr>m_pivot = 1\<rparr>]
       (SetUserLines example_tile 2 1 [\<lparr>m_points = [1]\<rparr>, \<lparr>m_points = [1]\<rparr>] fresh)))
   \<and> line_positions (m_marksIndex (SetGroupVisibility 1 True (SetUserMarks example_tile 2 1 [\<lparr>m_pivot = 1\<rparr>]
       (SetUserLines example_tile 2 1 [\<lparr>m_points = [1]\<rparr>, \<lparr>m_points = [1]\<rparr>] fresh)))) 101 1 = [0, 1]
   \<and> GenerateUserMarksGeometry example_cache 101 ()
        (SetGroupVisibility 1 True (SetUserMarks example_tile 2 1 [\<lparr>m_pivot = 1\<rparr>]
          (SetUserLines example_tile 2 1 [\<lparr>m_points = [1]\<rparr>, \<lparr>m_points = [1]\<rparr>] fresh))) =
       Inr ([FlushCall ''flush'' 1 ([\<lparr>m_pivot = 1\<rparr>], [0])],
            SetGroupVisibility 1 True (SetUserMarks example_tile 2 1 [\<lparr>m_pivot = 1\<rparr>]
              (SetUserLines example_tile 2 1 [\<lparr>m_points = [1]\<rparr>, \<lparr>m_points = [1]\<rparr>] fresh)))"
  by code_simp

text \<open>
  C4, amended. Let the tile hold an entry for group \<open>g\<close>, let \<open>g\<close> be visible and let every
  group of the tile, \<open>g\<close> among them, have a mark collection. Then
  \<^verbatim>\<open>GenerateUserMarksGeometry\<close> hands \<^verbatim>\<open>CacheUserMarks\<close> the mark collection of \<open>g\<close> and the
  mark positions stored for \<open>g\<close> in the tile, and calls the flush function for \<open>g\<close> once,
  with that render data. It reads no line collection and no line position: with other line
  collections and other line positions in the index its outcome is the same.
\<close>

theorem GenerateUserMarksGeometry_marks_only:
  assumes "fmlookup (m_marksIndex s) t = Some tg"
    and "fmlookup tg g = Some ic"
    and "g |\<in>| m_groupsVisibility s"
    and "fmlookup (m_marks s) g = Some marks"
    and "\<forall>g'. g' |\<in>| fmdom tg \<longrightarrow> fmlookup (m_marks s) g' \<noteq> None"
  shows "(\<exists>calls. GenerateUserMarksGeometry C t tex s = Inr (calls, s) \<and>
            filter (\<lambda>c. call_group c = g) calls =
              [FlushCall (m_flushFn s) g (C t tex marks (m_markIndexes ic))])
       \<and> map_sum id fst
            (GenerateUserMarksGeometry C t tex
               (s\<lparr>m_lines := L,
                  m_marksIndex := fmmap (fmmap (m_lineIndexes_update f)) (m_marksIndex s)\<rparr>)) =
          map_sum id fst (GenerateUserMarksGeometry C t tex s)"
proof
  have "\<exists>calls. GenerateGroups C s t tex (sorted_list_of_fmap tg) = Inr calls \<and>
           filter (\<lambda>c. call_group c = g) calls =
             [FlushCall (m_flushFn s) g (C t tex marks (m_markIndexes ic))]"
  proof (rule GenerateGroups_calls_for)
    fix g' assume "g' \<in> fst ` set (sorted_list_of_fmap tg)"
    then have "g' |\<in>| fmdom tg"
      by (auto simp: set_sorted_list_of_fmap intro: fmdomI)
    with assms(5) show "fmlookup (m_marks s) g' \<noteq> None" by blast
  next
    show "distinct (map fst (sorted_list_of_fmap tg))"
      by (rule distinct_sorted_list_of_fmap)
    show "(g, ic) \<in> set (sorted_list_of_fmap tg)"
      using assms(2) by (simp add: set_sorted_list_of_fmap)
  qed (rule assms(3), rule assms(4))
  then show "\<exists>calls. GenerateUserMarksGeometry C t tex s = Inr (calls, s) \<and>
            filter (\<lambda>c. call_group c = g) calls =
              [FlushCall (m_flushFn s) g (C t tex marks (m_markIndexes ic))]"
    using assms(1) by (auto simp: GenerateUserMarksGeometry_def)
next
  show "map_sum id fst
            (GenerateUserMarksGeometry C t tex
               (s\<lparr>m_lines := L,
                  m_marksIndex := fmmap (fmmap (m_lineIndexes_update f)) (m_marksIndex s)\<rparr>)) =
          map_sum id fst (GenerateUserMarksGeometry C t tex s)"
    by (rule GenerateUserMarksGeometry_line_data)
qed

theorem GenerateUserMarksGeometry_marks_only_witness:
  "(\<exists>calls. GenerateUserMarksGeometry example_cache 101 ()
        (SetGroupVisibility 1 True (SetUserMarks example_tile 2 1 [\<lparr>m_pivot = 1\<rparr>]
          (SetUserLines example_tile 2 1 [\<lparr>m_points = [1]\<rparr>, \<lparr>m_points = [1]\<rparr>] fresh))) =
       Inr (calls, SetGroupVisibility 1 True (SetUserMarks example_tile 2 1 [\<lparr>m_pivot = 1\<rparr>]
          (SetUserLines example_tile 2 1 [\<lparr>m_points = [1]\<rparr>, \<lparr>m_points = [1]\<rparr>] fresh)))
     \<and> filter (\<lambda>c. call_group c = 1) calls = [FlushCall ''flush'' 1 ([\<lparr>m_pivot = 1\<rparr>], [0])])
   \<and> map_sum id fst (GenerateUserMarksGeometry example_cache 101 ()
        ((SetGroupVisibility 1 True (SetUserMarks example_tile 2 1 [\<lparr>m_pivot = 1\<rparr>]
          (SetUserLines example_tile 2 1 [\<lparr>m_points = [1]\<rparr>, \<lparr>m_points = [1]\<rparr>] fresh)))
         \<lparr>m_lines := fmempty,
          m_marksIndex := fmmap (fmmap (m_lineIndexes_update (\<lambda>_. [])))
            (m_marksIndex (SetGroupVisibility 1 True (SetUserMarks example_tile 2 1 [\<lparr>m_pivot = 1\<rparr>]
              (SetUserLines example_tile 2 1 [\<lparr>m_points = [1]\<rparr>, \<lparr>m_points = [1]\<rparr>] fresh))))\<rparr>)) =
      map_sum id fst (GenerateUserMarksGeometry example_cache 101 ()
        (SetGroupVisibility 1 True (SetUserMarks example_tile 2 1 [\<lparr>m_pivot = 1\<rparr>]
          (SetUserLines example_tile 2 1 [\<lparr>m_points = [1]\<rparr>, \<lparr>m_points = [1]\<rparr>] fresh))))"
proof -
  let ?s = "SetGroupVisibility 1 True (SetUserMarks example_tile 2 1 [\<lparr>m_pivot = 1\<rparr>]
          (SetUserLines example_tile 2 1 [\<lparr>m_points = [1]\<rparr>, \<lparr>m_points = [1]\<rparr>] fresh))"
  let ?ic = "\<lparr>m_markIndexes = [0], m_lineIndexes = [0, 1]\<rparr>"
  have h1: "fmlookup (m_marksIndex ?s) 101 = Some (fmupd 1 ?ic fmempty)"
    by code_simp
  have h2: "fmlookup (fmupd 1 ?ic fmempty) 1 = Some ?ic"
    by simp
  have h3: "1 |\<in>| m_groupsVisibility ?s"
    by code_simp
  have h4: "fmlookup (m_marks ?s) 1 = Some [\<lparr>m_pivot = 1\<rparr>]"
    by code_simp
  have h5: "\<forall>g'. g' |\<in>| fmdom (fmupd 1 ?ic fmempty) \<longrightarrow> fmlookup (m_marks ?s) g' \<noteq> None"
    using h4 by simp
  have f: "m_flushFn ?s = ''flush''"
    by code_simp
  show ?thesis
    using GenerateUserMarksGeometry_marks_only[OF h1 h2 h3 h4 h5,
        where C = example_cache and tex = "()" and L = fmempty and f = "\<lambda>_. []"]
    by (simp add: f example_cache_def)
qed

subsection \<open>C5: the marks of a group without collections\<close>

text \<open>
  C5 (a defect of the code). For a group that is no key of \<^verbatim>\<open>m_marks\<close> the index is built
  as C5 says, see \<open>mark_positions_SetUserMarks\<close>, \<open>set_marks_of_tile\<close> and
  \<open>sorted_marks_of_tile\<close>, and \<^verbatim>\<open>GenerateUserMarksGeometry\<close> then calls the flush function
  once for the group, see \<open>GenerateUserMarksGeometry_unchecked_after_SetUserMarks\<close> (and
  \<open>GenerateUserMarksGeometry_after_SetUserMarks\<close> for the checked reading). But a group can
  be without collections and still be a key of \<^verbatim>\<open>m_marks\<close>, with a null pointer. After
  \<^verbatim>\<open>SetUserMarks(7, [mark at 1])\<close> and \<^verbatim>\<open>ClearUserMarks(7)\<close> group 7 has no mark collection, no
  line collection and is invisible, and tile 101 still holds an entry for it (C2).
  \<^verbatim>\<open>GenerateUserMarksGeometry\<close> on tile 101 then comes to \<^verbatim>\<open>*m_marks[7]\<close>: with checks that
  is the end; without checks the call returns, calls the flush function not once and leaves
  a null pointer under key 7. \<^verbatim>\<open>SetUserMarks(7, [mark at 5])\<close> after that inserts nothing,
  finds the key and reads the size of the collection through the null pointer: no position
  gets into the index.
\<close>

theorem SetUserMarks_after_null_entry:
  "SetUserMarks_unchecked example_tile 2 7 [\<lparr>m_pivot = 1\<rparr>]
       \<lparr>generator = fresh, null_marks = {||}\<rparr> =
     Inr \<lparr>generator = SetUserMarks example_tile 2 7 [\<lparr>m_pivot = 1\<rparr>] fresh, null_marks = {||}\<rparr>
   \<and> fmlookup (m_marks (generator cleared_generator)) 7 = None
   \<and> fmlookup (m_lines (generator cleared_generator)) 7 = None
   \<and> 7 |\<notin>| null_marks cleared_generator
   \<and> 7 |\<notin>| m_groupsVisibility (generator cleared_generator)
   \<and> fmlookup (m_marksIndex (generator cleared_generator)) 101 =
       Some (fmupd 7 \<lparr>m_markIndexes = [], m_lineIndexes = []\<rparr> fmempty)
   \<and> GenerateUserMarksGeometry example_cache 101 () (generator cleared_generator) =
       Inl NullDereference
   \<and> GenerateUserMarksGeometry_unchecked example_cache_unchecked 101 () cleared_generator =
       ([], cleared_generator\<lparr>null_marks := {|7|}\<rparr>)
   \<and> SetUserMarks_unchecked example_tile 2 7 [\<lparr>m_pivot = 5\<rparr>]
       (cleared_generator\<lparr>null_marks := {|7|}\<rparr>) = Inl NullDereference"
  by code_simp

subsection \<open>C6: a line is registered under the tiles of its vertices\<close>

text \<open>
  C6. Let group \<open>g\<close> have no line collection yet, and let \<open>lines\<close> be given to
  \<^verbatim>\<open>SetUserLines\<close> (positions are stored as 32-bit values, so the collection has at most
  \<open>2 ^ 32\<close> lines). Then for the line at position \<open>j\<close> and every tile \<open>t\<close>: \<open>j\<close> is in the line
  list of \<open>(t, g)\<close> exactly when \<open>t\<close> is the tile of one of the line's vertices at a zoom level
  from 1 to the upper scale, so a tile that holds no vertex of the line never gets \<open>j\<close>,
  whatever the segments cross. The list holds \<open>j\<close> once for each zoom level at which \<open>t\<close> is
  such a tile; tile keys of different zoom levels being different, that is at most once.
\<close>

theorem SetUserLines_vertex_tiles:
  assumes "fmlookup (m_lines s) g = None"
    and "length lines \<le> 2 ^ 32"
    and "j < length lines"
  shows "(of_nat j \<in> set (line_positions (m_marksIndex (SetUserLines tk U g lines s)) t g) \<longleftrightarrow>
            (\<exists>z\<in>{1..U}. \<exists>v\<in>set (m_points (lines ! j)). t = tk v z))
       \<and> count_list (line_positions (m_marksIndex (SetUserLines tk U g lines s)) t g) (of_nat j) =
            length (filter (\<lambda>z. \<exists>v\<in>set (m_points (lines ! j)). t = tk v z) [1..U])
       \<and> ((\<forall>p q. \<forall>z\<in>{1..U}. \<forall>z'\<in>{1..U}. z \<noteq> z' \<longrightarrow> tk p z \<noteq> tk q z') \<longrightarrow>
            count_list (line_positions (m_marksIndex (SetUserLines tk U g lines s)) t g) (of_nat j) \<le> 1)"
proof -
  have pos: "line_positions (m_marksIndex (SetUserLines tk U g lines s)) t g = lines_of_tile tk U lines t"
    using assms(1) by (rule line_positions_SetUserLines)
  have once: "length (filter (\<lambda>z. \<exists>v\<in>set (m_points (lines ! j)). t = tk v z) [1..U]) \<le> Suc 0"
    if sep: "\<forall>p q. \<forall>z\<in>{1..U}. \<forall>z'\<in>{1..U}. z \<noteq> z' \<longrightarrow> tk p z \<noteq> tk q z'"
  proof (rule length_filter_le_one)
    show "distinct [1..U]" by simp
  next
    fix z z'
    assume "z \<in> set [1..U]" "z' \<in> set [1..U]"
      and "\<exists>v\<in>set (m_points (lines ! j)). t = tk v z"
      and "\<exists>v\<in>set (m_points (lines ! j)). t = tk v z'"
    with sep show "z = z'" by (simp only: set_upto) blast
  qed
  show ?thesis
    unfolding pos
  proof (intro conjI impI)
    show "of_nat j \<in> set (lines_of_tile tk U lines t) \<longleftrightarrow>
            (\<exists>z\<in>{1..U}. \<exists>v\<in>set (m_points (lines ! j)). t = tk v z)"
      using assms(2,3) by (rule set_lines_of_tile)
  next
    show "count_list (lines_of_tile tk U lines t) (of_nat j) =
            length (filter (\<lambda>z. \<exists>v\<in>set (m_points (lines ! j)). t = tk v z) [1..U])"
      using assms(2,3) by (rule count_lines_of_tile)
  next
    assume "\<forall>p q. \<forall>z\<in>{1..U}. \<forall>z'\<in>{1..U}. z \<noteq> z' \<longrightarrow> tk p z \<noteq> tk q z'"
    then show "count_list (lines_of_tile tk U lines t) (of_nat j) \<le> 1"
      using once count_lines_of_tile[OF assms(2,3), of tk U t] by simp
  qed
qed

theorem SetUserLines_vertex_tiles_witness:
  "of_nat 0 \<in> set (line_positions (m_marksIndex
       (SetUserLines example_tile 2 7 [\<lparr>m_points = [1, 5]\<rparr>] fresh)) 101 7)
   \<and> of_nat 0 \<in> set (line_positions (m_marksIndex
       (SetUserLines example_tile 2 7 [\<lparr>m_points = [1, 5]\<rparr>] fresh)) 502 7)
   \<and> of_nat 0 \<notin> set (line_positions (m_marksIndex
       (SetUserLines example_tile 2 7 [\<lparr>m_points = [1, 5]\<rparr>] fresh)) 301 7)
   \<and> count_list (line_positions (m_marksIndex
       (SetUserLines example_tile 2 7 [\<lparr>m_points = [1, 5]\<rparr>] fresh)) 101 7) (of_nat 0) \<le> 1"
proof -
  have h1: "fmlookup (m_lines fresh) 7 = None"
    by (simp add: fresh_def)
  have h2: "length [\<lparr>m_points = [1, 5 :: int]\<rparr>] \<le> 2 ^ 32"
    by simp
  have h3: "0 < length [\<lparr>m_points = [1, 5 :: int]\<rparr>]"
    by simp
  note T = SetUserLines_vertex_tiles [OF h1 h2 h3, of example_tile 2]
  have sep: "\<forall>p q. \<forall>z\<in>{1..2}. \<forall>z'\<in>{1..2}. z \<noteq> z' \<longrightarrow> example_tile p z \<noteq> example_tile q z'"
    unfolding example_tile_def by auto presburger
  have in1: "\<exists>z\<in>{1..2}. \<exists>v\<in>set (m_points ([\<lparr>m_points = [1, 5]\<rparr>] ! 0)). 101 = example_tile v z"
    by (rule bexI[of _ 1]) (simp_all add: example_tile_def)
  have in5: "\<exists>z\<in>{1..2}. \<exists>v\<in>set (m_points ([\<lparr>m_points = [1, 5]\<rparr>] ! 0)). 502 = example_tile v z"
    by (rule bexI[of _ 2]) (simp_all add: example_tile_def)
  have out3: "\<not> (\<exists>z\<in>{1..2}. \<exists>v\<in>set (m_points ([\<lparr>m_points = [1, 5]\<rparr>] ! 0)). 301 = example_tile v z)"
    by (auto simp: example_tile_def)
  show ?thesis
    using T[of 101] T[of 502] T[of 301] sep in1 in5 out3 by blast
qed

subsection \<open>C7: visibility does not touch the index\<close>

text \<open>
  C7. After any sequence of \<^verbatim>\<open>SetGroupVisibility\<close> calls on a group \<open>g\<close> the index, the mark
  collections and the line collections are what they were before. The sequence comes to its
  last call: \<open>g\<close> is in the visibility set or not, every other group is as before. For
  \<^verbatim>\<open>GenerateUserMarksGeometry\<close> on any tile the outcome is the same as before but for the
  calls of the flush function for \<open>g\<close>: the same error if there was one, else the same calls
  for every other group, in the same order.
\<close>

theorem SetGroupVisibility_sequence_frame:
  "m_marksIndex (foldl (\<lambda>s v. SetGroupVisibility g v s) s vs) = m_marksIndex s
   \<and> m_marks (foldl (\<lambda>s v. SetGroupVisibility g v s) s vs) = m_marks s
   \<and> m_lines (foldl (\<lambda>s v. SetGroupVisibility g v s) s vs) = m_lines s
   \<and> m_groupsVisibility (foldl (\<lambda>s v. SetGroupVisibility g v s) s vs) =
       (if vs = [] then m_groupsVisibility s
        else if last vs then finsert g (m_groupsVisibility s)
        else m_groupsVisibility s |-| {|g|})
   \<and> map_sum id (\<lambda>r. filter (\<lambda>c. call_group c \<noteq> g) (fst r))
         (GenerateUserMarksGeometry C t tex (foldl (\<lambda>s v. SetGroupVisibility g v s) s vs)) =
       map_sum id (\<lambda>r. filter (\<lambda>c. call_group c \<noteq> g) (fst r))
         (GenerateUserMarksGeometry C t tex s)"
proof -
  have "map_sum id (\<lambda>r. filter (\<lambda>c. call_group c \<noteq> g) (fst r))
         (GenerateUserMarksGeometry C t tex (foldl (\<lambda>s v. SetGroupVisibility g v s) s vs)) =
       map_sum id (\<lambda>r. filter (\<lambda>c. call_group c \<noteq> g) (fst r))
         (GenerateUserMarksGeometry C t tex s)"
    by (rule GenerateUserMarksGeometry_other_groups)
       (auto simp: SetGroupVisibility_foldl_fields SetGroupVisibility_foldl_visibility)
  then show ?thesis
    by (simp only: SetGroupVisibility_foldl_fields SetGroupVisibility_foldl_visibility simp_thms)
qed

subsection \<open>C8: absent tiles and absent groups\<close>

text \<open>
  C8. \<^verbatim>\<open>GenerateUserMarksGeometry\<close> on a tile that has no entry in the index returns without
  error, calls the flush function not once and leaves the generator as it is. For a group
  that has no mark collection, no line collection and no entry in any tile,
  \<^verbatim>\<open>ClearUserMarks\<close> does nothing but take the group out of the visibility set (nothing
  at all when it is not there), and \<^verbatim>\<open>SetGroupVisibility\<close> leaves the collections and the
  index alone and changes the outcome of \<^verbatim>\<open>GenerateUserMarksGeometry\<close> on no tile (with
  \<open>False\<close> for a group that is not visible it changes nothing at all). All these are total
  functions, there is no error to return. \<^verbatim>\<open>ClearUserMarks\<close> twice on a group is
  \<^verbatim>\<open>ClearUserMarks\<close> once.
\<close>

theorem absent_inputs_are_no_ops:
  "(fmlookup (m_marksIndex s) t = None \<longrightarrow> GenerateUserMarksGeometry C t tex s = Inr ([], s))
   \<and> (g |\<notin>| fmdom (m_marks s) \<and> g |\<notin>| fmdom (m_lines s) \<and>
        (\<forall>tg. tg |\<in>| fmran (m_marksIndex s) \<longrightarrow> g |\<notin>| fmdom tg) \<longrightarrow>
        ClearUserMarks tk U g s = s\<lparr>m_groupsVisibility := m_groupsVisibility s |-| {|g|}\<rparr>
        \<and> (g |\<notin>| m_groupsVisibility s \<longrightarrow>
             ClearUserMarks tk U g s = s \<and> SetGroupVisibility g False s = s)
        \<and> m_marks (SetGroupVisibility g v s) = m_marks s
        \<and> m_lines (SetGroupVisibility g v s) = m_lines s
        \<and> m_marksIndex (SetGroupVisibility g v s) = m_marksIndex s
        \<and> map_sum id fst (GenerateUserMarksGeometry C t' tex (SetGroupVisibility g v s)) =
            map_sum id fst (GenerateUserMarksGeometry C t' tex s))
   \<and> ClearUserMarks tk U g (ClearUserMarks tk U g s) = ClearUserMarks tk U g s"
proof (intro conjI impI)
  assume "fmlookup (m_marksIndex s) t = None"
  then show "GenerateUserMarksGeometry C t tex s = Inr ([], s)"
    by (simp add: GenerateUserMarksGeometry_def)
next
  assume a: "g |\<notin>| fmdom (m_marks s) \<and> g |\<notin>| fmdom (m_lines s) \<and>
        (\<forall>tg. tg |\<in>| fmran (m_marksIndex s) \<longrightarrow> g |\<notin>| fmdom tg)"
  then show c: "ClearUserMarks tk U g s = s\<lparr>m_groupsVisibility := m_groupsVisibility s |-| {|g|}\<rparr>"
    by (intro ClearUserMarks_absent) auto
  show "map_sum id fst (GenerateUserMarksGeometry C t' tex (SetGroupVisibility g v s)) =
            map_sum id fst (GenerateUserMarksGeometry C t' tex s)"
    using a by (intro GenerateUserMarksGeometry_absent_group) auto
  {
    assume "g |\<notin>| m_groupsVisibility s"
    then have v: "m_groupsVisibility s |-| {|g|} = m_groupsVisibility s"
      by auto
    show "ClearUserMarks tk U g s = s"
      using c v by simp
    show "SetGroupVisibility g False s = s"
      using v by (simp add: SetGroupVisibility_def)
  }
qed (simp_all add: SetGroupVisibility_fields ClearUserMarks_idempotent)

theorem absent_inputs_are_no_ops_witness:
  "GenerateUserMarksGeometry example_cache 301 ()
      (SetUserMarks example_tile 2 7 [\<lparr>m_pivot = 1\<rparr>] fresh) =
     Inr ([], SetUserMarks example_tile 2 7 [\<lparr>m_pivot = 1\<rparr>] fresh)
   \<and> ClearUserMarks example_tile 2 3 (SetUserMarks example_tile 2 7 [\<lparr>m_pivot = 1\<rparr>] fresh) =
       SetUserMarks example_tile 2 7 [\<lparr>m_pivot = 1\<rparr>] fresh
   \<and> SetGroupVisibility 3 False (SetUserMarks example_tile 2 7 [\<lparr>m_pivot = 1\<rparr>] fresh) =
       SetUserMarks example_tile 2 7 [\<lparr>m_pivot = 1\<rparr>] fresh
   \<and> map_sum id fst (GenerateUserMarksGeometry example_cache 101 ()
         (SetGroupVisibility 3 True (SetUserMarks example_tile 2 7 [\<lparr>m_pivot = 1\<rparr>] fresh))) =
       map_sum id fst (GenerateUserMarksGeometry example_cache 101 ()
         (SetUserMarks example_tile 2 7 [\<lparr>m_pivot = 1\<rparr>] fresh))"
proof -
  let ?s = "SetUserMarks example_tile 2 7 [\<lparr>m_pivot = 1\<rparr>] fresh"
  have idx: "m_marksIndex ?s =
      fmupd 101 (fmupd 7 \<lparr>m_markIndexes = [0], m_lineIndexes = []\<rparr> fmempty)
        (fmupd 102 (fmupd 7 \<lparr>m_markIndexes = [0], m_lineIndexes = []\<rparr> fmempty) fmempty)"
    by code_simp
  have h1: "fmlookup (m_marksIndex ?s) 301 = None"
    by code_simp
  have h2: "3 |\<notin>| fmdom (m_marks ?s) \<and> 3 |\<notin>| fmdom (m_lines ?s) \<and>
        (\<forall>tg. tg |\<in>| fmran (m_marksIndex ?s) \<longrightarrow> 3 |\<notin>| fmdom tg)"
  proof (intro conjI allI impI)
    show "3 |\<notin>| fmdom (m_marks ?s)" by code_simp
    show "3 |\<notin>| fmdom (m_lines ?s)" by code_simp
    fix tg assume "tg |\<in>| fmran (m_marksIndex ?s)"
    then show "3 |\<notin>| fmdom tg"
      unfolding idx by (auto simp: fmlookup_ran_iff split: if_splits)
  qed
  have h3: "3 |\<notin>| m_groupsVisibility ?s"
    by code_simp
  show ?thesis
    using absent_inputs_are_no_ops[of ?s 301 example_cache "()" 3 example_tile 2 True 101]
      absent_inputs_are_no_ops[of ?s 301 example_cache "()" 3 example_tile 2 False 101] h1 h2 h3
    by blast
qed

subsection \<open>C9: construction and the flush function\<close>

text \<open>
  C9. Construction with a null flush function fails the assertion and gives no generator.
  Construction with a flush function \<open>f\<close> gives the empty generator that holds \<open>f\<close>; after
  any sequence of the mutating calls the generator still holds \<open>f\<close>, and every call of the
  flush function that \<^verbatim>\<open>GenerateUserMarksGeometry\<close> then makes is a call of \<open>f\<close> (and the
  generator is the same after it).
\<close>

theorem UserMarkGenerator_ctor_sink:
  "(UserMarkGenerator_ctor None :: error + ('tile::linorder, 'pt, 'sink) UserMarkGenerator) =
      Inl AssertionFailed
   \<and> (UserMarkGenerator_ctor (Some f) :: error + ('tile, 'pt, 'sink) UserMarkGenerator) =
       Inr \<lparr>m_marks = fmempty, m_lines = fmempty, m_groupsVisibility = {||},
            m_marksIndex = fmempty, m_flushFn = f\<rparr>
   \<and> (UserMarkGenerator_ctor (Some f) = Inr s0 \<longrightarrow>
        m_flushFn (foldl (run_command tk U) s0 cs) = f \<and>
        (GenerateUserMarksGeometry C t tex (foldl (run_command tk U) s0 cs) = Inr (calls, s') \<longrightarrow>
           s' = foldl (run_command tk U) s0 cs \<and> (\<forall>c\<in>set calls. call_sink c = f)))"
proof (intro conjI impI)
  assume "UserMarkGenerator_ctor (Some f) = Inr s0"
  then have f: "m_flushFn s0 = f"
    by (auto simp: UserMarkGenerator_ctor_def ASSERT_def)
  then show "m_flushFn (foldl (run_command tk U) s0 cs) = f"
    by (simp add: m_flushFn_run_commands)
  assume "GenerateUserMarksGeometry C t tex (foldl (run_command tk U) s0 cs) = Inr (calls, s')"
  from GenerateUserMarksGeometry_sink[OF this] f
  show "s' = foldl (run_command tk U) s0 cs" and "\<forall>c\<in>set calls. call_sink c = f"
    by (simp_all add: m_flushFn_run_commands)
qed (simp_all add: UserMarkGenerator_ctor_def ASSERT_def)

theorem UserMarkGenerator_ctor_sink_witness:
  "(UserMarkGenerator_ctor None :: error + (int, int, string) UserMarkGenerator) = Inl AssertionFailed
   \<and> UserMarkGenerator_ctor (Some ''flush'') = Inr fresh
   \<and> GenerateUserMarksGeometry example_cache 101 ()
        (foldl (run_command example_tile 2) fresh
           [ReplaceMarks 7 [\<lparr>m_pivot = 1\<rparr>], SetVisibility 7 True]) =
       Inr ([FlushCall ''flush'' 7 ([\<lparr>m_pivot = 1\<rparr>], [0])],
            foldl (run_command example_tile 2) fresh
              [ReplaceMarks 7 [\<lparr>m_pivot = 1\<rparr>], SetVisibility 7 True])
   \<and> m_flushFn (foldl (run_command example_tile 2) fresh
           [ReplaceMarks 7 [\<lparr>m_pivot = 1\<rparr>], SetVisibility 7 True]) = ''flush''
   \<and> call_sink (FlushCall ''flush'' 7 ([\<lparr>m_pivot = (1::int)\<rparr>], [0 :: 32 word])) = ''flush''"
proof -
  let ?cs = "[ReplaceMarks 7 [\<lparr>m_pivot = 1\<rparr>], SetVisibility 7 True] :: int Command list"
  let ?s = "foldl (run_command example_tile 2) fresh ?cs"
  have c: "UserMarkGenerator_ctor (Some ''flush'') = Inr fresh"
    by (simp add: UserMarkGenerator_ctor_def ASSERT_def fresh_def)
  have g: "GenerateUserMarksGeometry example_cache 101 () ?s =
       Inr ([FlushCall ''flush'' 7 ([\<lparr>m_pivot = 1\<rparr>], [0])], ?s)"
    by code_simp
  note T = UserMarkGenerator_ctor_sink[where f = "''flush''" and ?s0.0 = fresh and tk = example_tile
      and U = 2 and cs = ?cs and C = example_cache and t = 101 and tex = "()"
      and calls = "[FlushCall ''flush'' 7 ([\<lparr>m_pivot = 1\<rparr>], [0])]" and s' = ?s]
  from T have n: "(UserMarkGenerator_ctor None :: error + (int, int, string) UserMarkGenerator)
                = Inl AssertionFailed"
    by (rule conjunct1)
  from T c g have "m_flushFn ?s = ''flush''
      \<and> (\<forall>c\<in>set [FlushCall ''flush'' 7 ([\<lparr>m_pivot = (1::int)\<rparr>], [0 :: 32 word])]. call_sink c = ''flush'')"
    by blast
  with n c g show ?thesis by simp
qed

subsection \<open>C10: the unchecked dereference in GenerateUserMarksGeometry\<close>

text \<open>
  C10. \<^verbatim>\<open>GenerateUserMarksGeometry\<close> dereferences \<^verbatim>\<open>m_marks[groupId]\<close> for each group of the
  tile before it looks at the visibility set. So it ends in the null dereference exactly
  when the tile has an entry in the index and some group of that entry has no mark
  collection; the visibility set has no part in that, and there is no other error. The
  witness has the two cases: a group that is in the index through its lines only, and a
  group whose index entries are still there after \<^verbatim>\<open>ClearUserMarks\<close>; both groups are
  invisible.
\<close>

theorem GenerateUserMarksGeometry_null_dereference:
  "(GenerateUserMarksGeometry C t tex s = Inl NullDereference \<longleftrightarrow>
      (\<exists>tg. fmlookup (m_marksIndex s) t = Some tg \<and>
         (\<exists>g. g |\<in>| fmdom tg \<and> fmlookup (m_marks s) g = None)))
   \<and> (GenerateUserMarksGeometry C t tex (s\<lparr>m_groupsVisibility := V\<rparr>) = Inl NullDereference \<longleftrightarrow>
        GenerateUserMarksGeometry C t tex s = Inl NullDereference)
   \<and> GenerateUserMarksGeometry C t tex s \<noteq> Inl AssertionFailed"
proof -
  have iff: "GenerateUserMarksGeometry C t tex s' = Inl NullDereference \<longleftrightarrow>
      (\<exists>tg. fmlookup (m_marksIndex s') t = Some tg \<and>
         (\<exists>g. g |\<in>| fmdom tg \<and> fmlookup (m_marks s') g = None))"
    for s'
    using GenerateUserMarksGeometry_error_iff[of C t tex s']
      GenerateUserMarksGeometry_error[of C t tex s'] by blast
  have "GenerateUserMarksGeometry C t tex s \<noteq> Inl AssertionFailed"
    using GenerateUserMarksGeometry_error[of C t tex s AssertionFailed] by auto
  then show ?thesis
    using iff[of s] iff[of "s\<lparr>m_groupsVisibility := V\<rparr>"] by simp
qed

theorem GenerateUserMarksGeometry_null_dereference_witness:
  "1 |\<notin>| m_groupsVisibility (SetUserLines example_tile 2 1 [\<lparr>m_points = [1]\<rparr>] fresh)
   \<and> GenerateUserMarksGeometry example_cache 101 ()
        (SetUserLines example_tile 2 1 [\<lparr>m_points = [1]\<rparr>] fresh) = Inl NullDereference
   \<and> 7 |\<notin>| m_groupsVisibility
        (ClearUserMarks example_tile 2 7 (SetUserMarks example_tile 2 7 [\<lparr>m_pivot = 1\<rparr>] fresh))
   \<and> GenerateUserMarksGeometry example_cache 101 ()
        (ClearUserMarks example_tile 2 7 (SetUserMarks example_tile 2 7 [\<lparr>m_pivot = 1\<rparr>] fresh))
        = Inl NullDereference"
proof -
  let ?s1 = "SetUserLines example_tile 2 1 [\<lparr>m_points = [1]\<rparr>] fresh"
  let ?s2 = "ClearUserMarks example_tile 2 7 (SetUserMarks example_tile 2 7 [\<lparr>m_pivot = 1\<rparr>] fresh)"
  have a1: "fmlookup (m_marksIndex ?s1) 101 =
              Some (fmupd 1 \<lparr>m_markIndexes = [], m_lineIndexes = [0]\<rparr> fmempty)"
    by code_simp
  have b1: "fmlookup (m_marks ?s1) 1 = None"
    by code_simp
  have c1: "1 |\<notin>| m_groupsVisibility ?s1"
    by code_simp
  have a2: "fmlookup (m_marksIndex ?s2) 101 =
              Some (fmupd 7 \<lparr>m_markIndexes = [], m_lineIndexes = []\<rparr> fmempty)"
    by code_simp
  have b2: "fmlookup (m_marks ?s2) 7 = None"
    by code_simp
  have c2: "7 |\<notin>| m_groupsVisibility ?s2"
    by code_simp
  have e1: "\<exists>tg. fmlookup (m_marksIndex ?s1) 101 = Some tg \<and>
         (\<exists>g. g |\<in>| fmdom tg \<and> fmlookup (m_marks ?s1) g = None)"
    using a1 b1 by (intro exI[of _ "fmupd 1 \<lparr>m_markIndexes = [], m_lineIndexes = [0]\<rparr> fmempty"]
        conjI exI[of _ 1]) simp_all
  have e2: "\<exists>tg. fmlookup (m_marksIndex ?s2) 101 = Some tg \<and>
         (\<exists>g. g |\<in>| fmdom tg \<and> fmlookup (m_marks ?s2) g = None)"
    using a2 b2 by (intro exI[of _ "fmupd 7 \<lparr>m_markIndexes = [], m_lineIndexes = []\<rparr> fmempty"]
        conjI exI[of _ 7]) simp_all
  show ?thesis
    using GenerateUserMarksGeometry_null_dereference[of example_cache 101 "()" ?s1, THEN conjunct1]
      GenerateUserMarksGeometry_null_dereference[of example_cache 101 "()" ?s2, THEN conjunct1]
      e1 e2 c1 c2
    by blast
qed

end
